theory Spec2Isabelle
  imports Main "HOL-Library.Sublist" "HOL-Library.Multiset"
begin

section \<open>Constants of SpaceInvadersGame.py\<close>

definition WORLD_W :: int where "WORLD_W = 1000"
definition WORLD_H :: int where "WORLD_H = 800"
definition PLAYER_WIDTH :: int where "PLAYER_WIDTH = 60"
definition PLAYER_HEIGHT :: int where "PLAYER_HEIGHT = 40"
definition GROUND_HEIGHT :: int where "GROUND_HEIGHT = 50"

section \<open>Library functions the game calls\<close>

text \<open>
  \<^verbatim>\<open>QRect(x, y, w, h)\<close> of Qt stores the corners \<open>(x, y)\<close> and \<open>(x + w - 1, y + h - 1)\<close>;
  \<^verbatim>\<open>intersects\<close> normalises each rectangle and compares the intervals on both axes.
  Coordinates are Python integers; the game keeps them far inside the range of a C \<^verbatim>\<open>int\<close>.
\<close>

record qrect =
  qx1 :: int
  qy1 :: int
  qx2 :: int
  qy2 :: int

definition QRect :: "int \<Rightarrow> int \<Rightarrow> int \<Rightarrow> int \<Rightarrow> qrect" where
  "QRect x y w h = \<lparr>qx1 = x, qy1 = y, qx2 = x + w - 1, qy2 = y + h - 1\<rparr>"

definition isNull :: "qrect \<Rightarrow> bool" where
  "isNull r = (qx2 r = qx1 r - 1 \<and> qy2 r = qy1 r - 1)"

definition intersects :: "qrect \<Rightarrow> qrect \<Rightarrow> bool" where
  "intersects a b =
     (if isNull a \<or> isNull b then False
      else
        let l1 = (if qx2 a < qx1 a - 1 then qx2 a + 1 else qx1 a);
            r1 = (if qx2 a < qx1 a - 1 then qx1 a - 1 else qx2 a);
            l2 = (if qx2 b < qx1 b - 1 then qx2 b + 1 else qx1 b);
            r2 = (if qx2 b < qx1 b - 1 then qx1 b - 1 else qx2 b)
        in if l1 > r2 \<or> l2 > r1 then False
           else
             let t1 = (if qy2 a < qy1 a - 1 then qy2 a + 1 else qy1 a);
                 b1 = (if qy2 a < qy1 a - 1 then qy1 a - 1 else qy2 a);
                 t2 = (if qy2 b < qy1 b - 1 then qy2 b + 1 else qy1 b);
                 b2 = (if qy2 b < qy1 b - 1 then qy1 b - 1 else qy2 b)
             in \<not> (t1 > b2 \<or> t2 > b1))"

text \<open>
  \<^verbatim>\<open>random.randint(a, b)\<close> returns an integer \<open>N\<close> with \<open>a \<le> N \<le> b\<close>, both ends
  included. The generator's raw output is an input of the model: \<open>randint a b raw\<close>
  ranges over exactly \<open>{a..b}\<close> as \<open>raw\<close> ranges over the naturals.
\<close>

definition randint :: "int \<Rightarrow> int \<Rightarrow> nat \<Rightarrow> int" where
  "randint a b raw = a + int (raw mod nat (b - a + 1))"

section \<open>The game state (the dictionary built by reset_state)\<close>

type_synonym bullet = "int \<times> int"

record alien =
  alien_x :: int
  alien_y :: int
  alien_type :: string
  color_index :: int
  frame :: int

record keys =
  key_left :: bool
  key_right :: bool

record game_state =
  player_x :: int
  player_y :: int
  bullets :: "bullet list"
  alien_bullets :: "bullet list"
  aliens :: "alien list"
  alien_direction :: int
  alien_speed :: int
  alien_anim_counter :: int
  score :: int
  lives :: int
  level :: int
  game_over :: bool
  keys_pressed :: keys
  alien_shoot_cooldown :: int
  paused :: bool
  shots_fired :: int
  mystery_ship :: "(int \<times> int) option"
  mystery_ship_direction :: int
  mystery_ship_cooldown :: int

text \<open>
  The signals of the worker. \<open>AlienFire\<close> is \<^verbatim>\<open>update_signal.emit({'alien_fire': True})\<close>,
  \<open>RequestInitials n\<close> is \<^verbatim>\<open>request_initials.emit(n)\<close> (the game-over event), and
  \<open>StateUpdate s\<close> is \<^verbatim>\<open>update_signal.emit(self.state.copy())\<close>.
\<close>

datatype event = AlienFire | RequestInitials int | StateUpdate game_state

text \<open>
  The outcomes of the random calls of one tick, one field per call site of
  \<^verbatim>\<open>update_logic\<close>: \<open>r_fire\<close> is the truth value of \<^verbatim>\<open>random.random() < 0.3\<close>,
  \<open>r_shooter\<close> the raw index behind \<^verbatim>\<open>random.choice(aliens)\<close>, \<open>r_side\<close> the value of
  \<^verbatim>\<open>random.choice([True, False])\<close>, \<open>r_exit\<close> and \<open>r_hit\<close> the raw values behind the two
  \<^verbatim>\<open>random.randint(600, 1000)\<close> calls, and \<open>r_colors k\<close> the raw value behind the
  \<open>k\<close>-th \<^verbatim>\<open>random.randint(0, 5)\<close> of \<^verbatim>\<open>create_aliens\<close>.
\<close>

record rnd =
  r_fire :: bool
  r_shooter :: nat
  r_side :: bool
  r_exit :: nat
  r_hit :: nat
  r_colors :: "nat \<Rightarrow> nat"

section \<open>GameWorker\<close>

definition alien_rows :: "string list" where
  "alien_rows = [''squid'', ''crab'', ''crab'', ''octopus'', ''octopus'']"

definition new_alien :: "(nat \<Rightarrow> nat) \<Rightarrow> nat \<Rightarrow> string \<Rightarrow> nat \<Rightarrow> alien" where
  "new_alien c row t col =
     \<lparr>alien_x = 50 + int col * 50, alien_y = 50 + int row * 40, alien_type = t,
      color_index = randint 0 5 (c (row * 11 + col)), frame = 0\<rparr>"

definition create_aliens :: "(nat \<Rightarrow> nat) \<Rightarrow> alien list" where
  "create_aliens c =
     concat (map (\<lambda>(row, t). map (new_alien c row t) [0..<11]) (enumerate 0 alien_rows))"

definition reset_state :: "nat \<Rightarrow> (nat \<Rightarrow> nat) \<Rightarrow> game_state" where
  "reset_state raw c =
     \<lparr>player_x = (WORLD_W - PLAYER_WIDTH) div 2,
      player_y = WORLD_H - GROUND_HEIGHT - PLAYER_HEIGHT,
      bullets = [],
      alien_bullets = [],
      aliens = create_aliens c,
      alien_direction = 1,
      alien_speed = 10,
      alien_anim_counter = 0,
      score = 0,
      lives = 3,
      level = 1,
      game_over = False,
      keys_pressed = \<lparr>key_left = False, key_right = False\<rparr>,
      alien_shoot_cooldown = 0,
      paused = False,
      shots_fired = 0,
      mystery_ship = None,
      mystery_ship_direction = 1,
      mystery_ship_cooldown = randint 600 1000 raw\<rparr>"

text \<open>\<^verbatim>\<open>calculate_mystery_ship_score\<close>: the counter is incremented first, then read.\<close>

definition calculate_mystery_ship_score :: "game_state \<Rightarrow> int \<times> game_state" where
  "calculate_mystery_ship_score s =
     (let s1 = s\<lparr>shots_fired := shots_fired s + 1\<rparr>;
          increment = ((shots_fired s1 + 22) mod 15) * 50
      in (min (50 + increment) 300, s1))"

subsection \<open>The phases of update_logic, in source order\<close>

definition move_player :: "keys \<Rightarrow> int \<Rightarrow> int" where
  "move_player k px =
     (let px1 = (if key_left k then max 0 (px - 10) else px)
      in if key_right k then min (WORLD_W - PLAYER_WIDTH) (px1 + 10) else px1)"

definition player_movement :: "game_state \<Rightarrow> game_state" where
  "player_movement s = s\<lparr>player_x := move_player (keys_pressed s) (player_x s)\<rparr>"

definition advance_bullets :: "bullet list \<Rightarrow> bullet list" where
  "advance_bullets bs = [(bx, by - 20). (bx, by) \<leftarrow> bs, by > 0]"

definition advance_alien_bullets :: "bullet list \<Rightarrow> bullet list" where
  "advance_alien_bullets bs = [(bx, by + 15). (bx, by) \<leftarrow> bs, by < WORLD_H]"

definition move_bullets :: "game_state \<Rightarrow> game_state" where
  "move_bullets s =
     s\<lparr>bullets := advance_bullets (bullets s),
       alien_bullets := advance_alien_bullets (alien_bullets s)\<rparr>"

definition shift_alien :: "int \<Rightarrow> alien \<Rightarrow> alien" where
  "shift_alien dx a = a\<lparr>alien_x := alien_x a + dx\<rparr>"

definition at_edge :: "alien \<Rightarrow> bool" where
  "at_edge a = (alien_x a \<le> 0 \<or> alien_x a \<ge> WORLD_W - 40)"

definition toggle_frame :: "alien \<Rightarrow> alien" where
  "toggle_frame a = a\<lparr>frame := (frame a + 1) mod 2\<rparr>"

definition drop_alien :: "alien \<Rightarrow> alien" where
  "drop_alien a = a\<lparr>alien_y := alien_y a + 20\<rparr>"

definition ANIM_SPEED :: int where "ANIM_SPEED = 5"

definition move_aliens :: "game_state \<Rightarrow> game_state" where
  "move_aliens s =
     (let counter = alien_anim_counter s + 1;
          moved = map (shift_alien (alien_direction s * alien_speed s)) (aliens s);
          edge_hit = list_ex at_edge moved;
          s1 = s\<lparr>alien_anim_counter := counter, aliens := moved\<rparr>;
          s2 = (if alien_anim_counter s1 \<ge> ANIM_SPEED
                then s1\<lparr>aliens := map toggle_frame (aliens s1), alien_anim_counter := 0\<rparr>
                else s1)
      in if edge_hit
         then s2\<lparr>alien_direction := alien_direction s2 * (- 1),
                 aliens := map drop_alien (aliens s2)\<rparr>
         else s2)"

definition cooldowns :: "char \<Rightarrow> int" where
  "cooldowns d = (if d = CHR ''E'' then 15 else if d = CHR ''M'' then 7
                  else if d = CHR ''H'' then 3 else 20)"

definition alien_shooting :: "char \<Rightarrow> rnd \<Rightarrow> game_state \<Rightarrow> game_state \<times> event list" where
  "alien_shooting d r s =
     (if alien_shoot_cooldown s \<le> 0 then
        (if aliens s \<noteq> [] \<and> r_fire r then
           let shooter = aliens s ! (r_shooter r mod length (aliens s))
           in (s\<lparr>alien_bullets := alien_bullets s @ [(alien_x shooter + 18, alien_y shooter + 30)],
                 alien_shoot_cooldown := cooldowns d\<rparr>, [AlienFire])
         else (s, []))
      else (s\<lparr>alien_shoot_cooldown := alien_shoot_cooldown s - 1\<rparr>, []))"

definition mystery_ship_movement :: "rnd \<Rightarrow> game_state \<Rightarrow> game_state" where
  "mystery_ship_movement r s =
     (case mystery_ship s of
        None \<Rightarrow>
          (let s1 = s\<lparr>mystery_ship_cooldown := mystery_ship_cooldown s - 1\<rparr>
           in if mystery_ship_cooldown s1 \<le> 0 then
                let start_x = (if r_side r then 0 else WORLD_W - 60);
                    direction = (if start_x = 0 then 1 else - 1)
                in s1\<lparr>mystery_ship := Some (start_x, 50), mystery_ship_direction := direction\<rparr>
              else s1)
      | Some (mx, my) \<Rightarrow>
          (let mx1 = mx + mystery_ship_direction s * 5
           in if mx1 < - 60 \<or> mx1 > WORLD_W
              then s\<lparr>mystery_ship := None, mystery_ship_cooldown := randint 600 1000 (r_exit r)\<rparr>
              else s\<lparr>mystery_ship := Some (mx1, my)\<rparr>))"

definition bullet_rect :: "bullet \<Rightarrow> qrect" where
  "bullet_rect b = QRect (fst b) (snd b) 5 15"

definition hits_alien :: "alien \<Rightarrow> bullet \<Rightarrow> bool" where
  "hits_alien a b =
     (let padding = 5
      in intersects (bullet_rect b)
           (QRect (alien_x a - padding) (alien_y a - padding) (40 + padding) (30 + padding)))"

definition multiplier :: "char \<Rightarrow> int" where
  "multiplier d = (if d = CHR ''E'' then 1 else if d = CHR ''M'' then 2 else 3)"

text \<open>
  The collision loop: for each alien in list order, the first bullet of the current list
  that intersects it is removed (\<^verbatim>\<open>list.remove\<close> deletes the first equal element) and
  the alien is not kept.
\<close>

fun collide :: "char \<Rightarrow> alien list \<Rightarrow> bullet list \<Rightarrow> int \<Rightarrow> alien list \<times> bullet list \<times> int" where
  "collide d [] bs sc = ([], bs, sc)"
| "collide d (a # as) bs sc =
     (case find (hits_alien a) bs of
        Some b \<Rightarrow> collide d as (remove1 b bs) (sc + 10 * multiplier d)
      | None \<Rightarrow> (case collide d as bs sc of (remaining, bs', sc') \<Rightarrow> (a # remaining, bs', sc')))"

definition alien_collisions :: "char \<Rightarrow> game_state \<Rightarrow> game_state" where
  "alien_collisions d s =
     (case collide d (aliens s) (bullets s) (score s) of
        (remaining, bs, sc) \<Rightarrow> s\<lparr>aliens := remaining, bullets := bs, score := sc\<rparr>)"

definition hits_ship :: "int \<times> int \<Rightarrow> bullet \<Rightarrow> bool" where
  "hits_ship m b = intersects (bullet_rect b) (QRect (fst m) (snd m) 60 30)"

definition mystery_ship_collisions :: "rnd \<Rightarrow> game_state \<Rightarrow> game_state" where
  "mystery_ship_collisions r s =
     (case mystery_ship s of
        None \<Rightarrow> s
      | Some m \<Rightarrow>
          (case find (hits_ship m) (bullets s) of
             None \<Rightarrow> s
           | Some b \<Rightarrow>
               (let s1 = s\<lparr>bullets := remove1 b (bullets s)\<rparr>;
                    (points, s2) = calculate_mystery_ship_score s1
                in s2\<lparr>score := score s1 + points,
                      mystery_ship := None,
                      mystery_ship_cooldown := randint 600 1000 (r_hit r)\<rparr>)))"

definition hits_player :: "game_state \<Rightarrow> bullet \<Rightarrow> bool" where
  "hits_player s b =
     intersects (bullet_rect b) (QRect (player_x s) (player_y s) PLAYER_WIDTH PLAYER_HEIGHT)"

text \<open>
  The loop over \<^verbatim>\<open>alien_bullets.copy()\<close>: every bullet of the copy that overlaps the player
  costs one life and is removed from the live list; whenever the lives are then
  \<open>\<le> 0\<close> the game is over and \<^verbatim>\<open>request_initials\<close> is emitted. The loop has no
  \<^verbatim>\<open>break\<close>.
\<close>

fun player_hit_loop :: "bullet list \<Rightarrow> game_state \<times> event list \<Rightarrow> game_state \<times> event list" where
  "player_hit_loop [] (s, ev) = (s, ev)"
| "player_hit_loop (b # bs) (s, ev) =
     (if hits_player s b then
        (let s1 = s\<lparr>lives := lives s - 1, alien_bullets := remove1 b (alien_bullets s)\<rparr>
         in if lives s1 \<le> 0
            then player_hit_loop bs (s1\<lparr>game_over := True\<rparr>, ev @ [RequestInitials (score s1)])
            else player_hit_loop bs (s1, ev))
      else player_hit_loop bs (s, ev))"

definition player_collisions :: "game_state \<Rightarrow> game_state \<times> event list" where
  "player_collisions s = player_hit_loop (alien_bullets s) (s, [])"

definition level_completion :: "rnd \<Rightarrow> game_state \<Rightarrow> game_state" where
  "level_completion r s =
     (if aliens s = []
      then s\<lparr>level := level s + 1, alien_speed := alien_speed s + 2,
             aliens := create_aliens (r_colors r)\<rparr>
      else s)"

definition reached_bottom :: "game_state \<Rightarrow> alien \<Rightarrow> bool" where
  "reached_bottom s a = (alien_y a + 30 \<ge> player_y s)"

definition aliens_reach_bottom :: "game_state \<Rightarrow> game_state \<times> event list" where
  "aliens_reach_bottom s =
     (if list_ex (reached_bottom s) (aliens s)
      then (s\<lparr>game_over := True\<rparr>, [RequestInitials (score s)])
      else (s, []))"

text \<open>
  The tick up to and including the alien collisions (\<open>advance_entities\<close>), and up to the
  end of collision resolution, before level completion (\<open>resolve_collisions\<close>).
\<close>

definition advance_entities :: "char \<Rightarrow> rnd \<Rightarrow> game_state \<Rightarrow> game_state \<times> event list" where
  "advance_entities d r s =
     (let s1 = player_movement s;
          s2 = move_bullets s1;
          s3 = move_aliens s2;
          (s4, ev4) = alien_shooting d r s3;
          s5 = mystery_ship_movement r s4;
          s6 = alien_collisions d s5
      in (s6, ev4))"

definition resolve_collisions :: "char \<Rightarrow> rnd \<Rightarrow> game_state \<Rightarrow> game_state \<times> event list" where
  "resolve_collisions d r s =
     (let (s6, ev4) = advance_entities d r s;
          s7 = mystery_ship_collisions r s6;
          (s8, ev8) = player_collisions s7
      in (s8, ev4 @ ev8))"

definition update_logic :: "char \<Rightarrow> rnd \<Rightarrow> game_state \<Rightarrow> game_state \<times> event list" where
  "update_logic d r s =
     (if game_over s then (s, [])
      else
        let (s8, ev8) = resolve_collisions d r s;
            s9 = level_completion r s8;
            (s10, ev10) = aliens_reach_bottom s9
        in (s10, ev8 @ ev10 @ [StateUpdate s10]))"

text \<open>One iteration of the loop of \<^verbatim>\<open>run\<close>: the tick is skipped while paused.\<close>

definition run_step :: "char \<Rightarrow> rnd \<Rightarrow> game_state \<Rightarrow> game_state \<times> event list" where
  "run_step d r s = (if \<not> paused s then update_logic d r s else (s, []))"

text \<open>\<^verbatim>\<open>update_key_state\<close>: the widget copies its key flags into the worker's state.\<close>

definition update_key_state :: "keys \<Rightarrow> game_state \<Rightarrow> game_state" where
  "update_key_state k s = s\<lparr>keys_pressed := k\<rparr>"

text \<open>A run of the worker: before each tick the widget may have written new key flags.\<close>

fun run_ticks :: "char \<Rightarrow> game_state \<Rightarrow> (keys \<times> rnd) list \<Rightarrow> game_state" where
  "run_ticks d s [] = s"
| "run_ticks d s ((k, r) # rest) = run_ticks d (fst (run_step d r (update_key_state k s))) rest"

definition is_request :: "event \<Rightarrow> bool" where
  "is_request e = (case e of RequestInitials n \<Rightarrow> True | _ \<Rightarrow> False)"

definition request_count :: "event list \<Rightarrow> nat" where
  "request_count evs = length (filter is_request evs)"

definition ship_destroyed :: "rnd \<Rightarrow> game_state \<Rightarrow> bool" where
  "ship_destroyed r s =
     (case mystery_ship s of
        None \<Rightarrow> False
      | Some m \<Rightarrow> (case find (hits_ship m) (bullets s) of None \<Rightarrow> False | Some b \<Rightarrow> True))"

section \<open>HighScores\<close>

text \<open>
  A Python \<^verbatim>\<open>str\<close> is a sequence of Unicode code points. \<^verbatim>\<open>str.strip()\<close> removes the
  leading and trailing white space, \<^verbatim>\<open>s[:3]\<close> keeps the first three code points and
  \<^verbatim>\<open>str.upper()\<close> replaces every code point by its full upper-case mapping, which may
  be longer than one code point. That mapping is a table of the Python runtime and a
  parameter \<open>up\<close> of the model.
\<close>

type_synonym pystr = "nat list"

definition ascii :: "string \<Rightarrow> pystr" where
  "ascii s = map of_char s"

definition py_isspace :: "nat \<Rightarrow> bool" where
  "py_isspace c =
     ((9 \<le> c \<and> c \<le> 13) \<or> (28 \<le> c \<and> c \<le> 32) \<or> c = 133 \<or> c = 160 \<or> c = 5760
      \<or> (8192 \<le> c \<and> c \<le> 8202) \<or> c = 8232 \<or> c = 8233 \<or> c = 8239 \<or> c = 8287 \<or> c = 12288)"

definition py_strip :: "pystr \<Rightarrow> pystr" where
  "py_strip s = rev (dropWhile py_isspace (rev (dropWhile py_isspace s)))"

definition py_upper :: "(nat \<Rightarrow> pystr) \<Rightarrow> pystr \<Rightarrow> pystr" where
  "py_upper up s = concat (map up s)"

text \<open>
  The entries of the upper-case table for ASCII, for U+00DF (the sharp s, whose upper
  case is the two letters SS) and for the surrogate code points (which have no case).
  Only these entries are used, at concrete inputs.
\<close>

definition upper_excerpt :: "nat \<Rightarrow> pystr" where
  "upper_excerpt c = (if 97 \<le> c \<and> c \<le> 122 then [c - 32] else if c = 223 then [83, 83] else [c])"

text \<open>What \<^verbatim>\<open>json.load\<close> can return (numbers with a fraction are left out).\<close>

datatype json =
    JNull
  | JBool bool
  | JInt int
  | JStr pystr
  | JList "json list"
  | JDict "(pystr \<times> json) list"

text \<open>
  The score file as the library calls see it: absent, present but not openable, present
  with bytes that are not text in the default encoding, text that is not JSON, or the
  text of a JSON value.
\<close>

datatype file_state = Missing | Unreadable | Undecodable | NotJson | Json json

datatype py_error = OSError | UnicodeDecodeError | JSONDecodeError | ValueError

definition file_exists :: "file_state \<Rightarrow> bool" where
  "file_exists f = (f \<noteq> Missing)"

text \<open>\<^verbatim>\<open>with open(self.file, "r") as f: json.load(f)\<close>\<close>

definition json_load :: "file_state \<Rightarrow> py_error + json" where
  "json_load f =
     (case f of
        Missing \<Rightarrow> Inl OSError
      | Unreadable \<Rightarrow> Inl OSError
      | Undecodable \<Rightarrow> Inl UnicodeDecodeError
      | NotJson \<Rightarrow> Inl JSONDecodeError
      | Json v \<Rightarrow> Inr v)"

text \<open>\<^verbatim>\<open>load_scores\<close>: only \<^verbatim>\<open>json.JSONDecodeError\<close> is caught.\<close>

definition load_scores :: "file_state \<Rightarrow> py_error + json" where
  "load_scores f =
     (if file_exists f then
        (case json_load f of
           Inr v \<Rightarrow> Inr v
         | Inl JSONDecodeError \<Rightarrow> Inr (JList [])
         | Inl e \<Rightarrow> Inl e)
      else Inr (JList []))"

record entry =
  entry_initials :: pystr
  entry_score :: int

definition entry_json :: "entry \<Rightarrow> json" where
  "entry_json e =
     JDict [(ascii ''initials'', JStr (entry_initials e)), (ascii ''score'', JInt (entry_score e))]"

definition table_json :: "entry list \<Rightarrow> json" where
  "table_json es = JList (map entry_json es)"

text \<open>
  What \<^verbatim>\<open>json.load\<close> reads back from a string that \<^verbatim>\<open>json.dump\<close> wrote. Every code
  point outside ASCII is written as a \<^verbatim>\<open>\uXXXX\<close> escape, a surrogate code point as the
  escape of itself; the reader joins the escape of a high surrogate that is directly
  followed by the escape of a low surrogate into one code point.
\<close>

definition is_high_surrogate :: "nat \<Rightarrow> bool" where
  "is_high_surrogate c = (55296 \<le> c \<and> c \<le> 56319)"

definition is_low_surrogate :: "nat \<Rightarrow> bool" where
  "is_low_surrogate c = (56320 \<le> c \<and> c \<le> 57343)"

fun join_surrogates :: "pystr \<Rightarrow> pystr" where
  "join_surrogates (h # l # cs) =
     (if is_high_surrogate h \<and> is_low_surrogate l
      then (65536 + (h - 55296) * 1024 + (l - 56320)) # join_surrogates cs
      else h # join_surrogates (l # cs))"
| "join_surrogates cs = cs"

definition reread_entry :: "entry \<Rightarrow> entry" where
  "reread_entry e = e\<lparr>entry_initials := join_surrogates (entry_initials e)\<rparr>"

text \<open>
  \<^verbatim>\<open>json.dump\<close> prints an integer with \<^verbatim>\<open>int.__repr__\<close>, which raises \<^verbatim>\<open>ValueError\<close> for an
  integer of more than \<^verbatim>\<open>sys.int_max_str_digits\<close> (4300 by default) decimal digits.
\<close>

definition int_max_str_digits :: nat where
  "int_max_str_digits = 4300"

definition int_str_ok :: "int \<Rightarrow> bool" where
  "int_str_ok n = (\<bar>n\<bar> < 10 ^ int_max_str_digits)"

text \<open>
  \<^verbatim>\<open>save_scores\<close>: the outcome of the operating-system calls is an input. When \<^verbatim>\<open>mkdir\<close>
  or \<^verbatim>\<open>open\<close> raises, the file stays as it was; when the write raises after \<^verbatim>\<open>open\<close> has
  truncated the file, an incomplete text is left. Both are caught and a warning is
  printed. A \<^verbatim>\<open>ValueError\<close> of \<^verbatim>\<open>json.dump\<close> is not caught by
  \<^verbatim>\<open>except (OSError, IOError)\<close>: it leaves the incomplete text and escapes. Otherwise the
  file holds the text of the table, as \<^verbatim>\<open>json.load\<close> reads it back.
\<close>

datatype io = IoOk | IoOpenFails | IoWriteFails

datatype save_result = Saved | Warned | Raised py_error

definition save_scores :: "io \<Rightarrow> entry list \<Rightarrow> file_state \<Rightarrow> file_state \<times> save_result" where
  "save_scores w es f =
     (case w of
        IoOk \<Rightarrow>
          if list_all (\<lambda>e. int_str_ok (entry_score e)) es
          then (Json (table_json (map reread_entry es)), Saved)
          else (NotJson, Raised ValueError)
      | IoOpenFails \<Rightarrow> (f, Warned)
      | IoWriteFails \<Rightarrow> (NotJson, Warned))"

text \<open>
  \<^verbatim>\<open>list.sort(key=lambda x: x['score'], reverse=True)\<close> is a stable sort by descending
  key: entries with equal scores keep their order.
\<close>

definition sort_desc :: "entry list \<Rightarrow> entry list" where
  "sort_desc es = sort_key (\<lambda>e. - entry_score e) es"

definition normalise_initials :: "(nat \<Rightarrow> pystr) \<Rightarrow> pystr \<Rightarrow> pystr" where
  "normalise_initials up initials = py_upper up (take 3 (py_strip initials))"

text \<open>
  \<^verbatim>\<open>add_score\<close>: the table in memory is replaced before the write; the last component is
  what the write did (an exception it raised escapes \<^verbatim>\<open>add_score\<close>).
\<close>

definition add_score ::
  "(nat \<Rightarrow> pystr) \<Rightarrow> io \<Rightarrow> entry list \<times> file_state \<Rightarrow> pystr \<Rightarrow> int
   \<Rightarrow> (entry list \<times> file_state) \<times> save_result" where
  "add_score up w hs initials sc =
     (let scores1 = fst hs @ [\<lparr>entry_initials = normalise_initials up initials, entry_score = sc\<rparr>];
          scores2 = sort_desc scores1;
          scores3 = take 10 scores2;
          (f, result) = save_scores w scores3 (snd hs)
      in ((scores3, f), result))"

section \<open>The widget's key handlers\<close>

datatype key =
    Key_Left | Key_Right | Key_Space | Key_Q | Key_R | Key_P | Key_L | Key_S | Key_M
  | Key_E | Key_H | Key_Other

text \<open>
  The widget and its worker. The worker's state dictionary is modelled once
  \<^verbatim>\<open>reset_state\<close> has filled it. \<open>snapshot\<close> is the widget's \<^verbatim>\<open>self.state\<close>: \<open>None\<close> when
  that dictionary has no \<^verbatim>\<open>'bullets'\<close> key, otherwise the \<^verbatim>\<open>player_x\<close> and \<^verbatim>\<open>player_y\<close>
  it holds and whether its bullet list is still the list of the worker's state (the
  emitted copy is shallow, so both dictionaries share the list until the worker's state
  is rebuilt). A tick and the delivery of its signals are one atomic step.
\<close>

record gui =
  worker_state :: game_state
  worker_difficulty :: char
  worker_running :: bool
  gui_keys :: keys
  selecting_difficulty :: bool
  space_pressed :: bool
  snapshot :: "(int \<times> int \<times> bool) option"
  quit_requested :: bool

definition start_game :: "char \<Rightarrow> nat \<Rightarrow> (nat \<Rightarrow> nat) \<Rightarrow> gui \<Rightarrow> gui" where
  "start_game difficulty raw c g =
     (let g1 = g\<lparr>worker_difficulty := difficulty, worker_state := reset_state raw c,
                 snapshot := map_option (\<lambda>(px, py, shared). (px, py, False)) (snapshot g)\<rparr>
      in g1\<lparr>worker_state := (worker_state g1)\<lparr>alien_anim_counter := 0\<rparr>,
            worker_running := True\<rparr>)"

definition spawn_mystery_ship :: "bool \<Rightarrow> game_state \<Rightarrow> game_state" where
  "spawn_mystery_ship side s =
     (if mystery_ship s = None then
        let start_x = (if side then 0 else WORLD_W - 60);
            direction = (if start_x = 0 then 1 else - 1)
        in s\<lparr>mystery_ship := Some (start_x, 50), mystery_ship_direction := direction,
             mystery_ship_cooldown := 1000\<rparr>
      else s)"

definition fire_bullet :: "gui \<Rightarrow> gui" where
  "fire_bullet g =
     (case snapshot g of
        None \<Rightarrow> g
      | Some (px, py, shared) \<Rightarrow>
          if \<not> space_pressed g then
            (if shared
             then g\<lparr>worker_state := (worker_state g)
                      \<lparr>bullets := bullets (worker_state g) @ [(px + PLAYER_WIDTH div 2 - 2, py)]\<rparr>\<rparr>
             else g)
            \<lparr>space_pressed := True\<rparr>
          else g)"

text \<open>
  \<^verbatim>\<open>keyPressEvent\<close>. \<open>side\<close>, \<open>raw\<close> and \<open>c\<close> are the outcomes of the random calls the
  handler may make (the debug spawn, \<^verbatim>\<open>reset_state\<close>).
\<close>

definition keyPressEvent :: "key \<Rightarrow> bool \<Rightarrow> nat \<Rightarrow> (nat \<Rightarrow> nat) \<Rightarrow> gui \<Rightarrow> gui" where
  "keyPressEvent k side raw c g =
     (let g1 =
        (case k of
           Key_Left \<Rightarrow> g\<lparr>gui_keys := (gui_keys g)\<lparr>key_left := True\<rparr>\<rparr>
         | Key_Right \<Rightarrow> g\<lparr>gui_keys := (gui_keys g)\<lparr>key_right := True\<rparr>\<rparr>
         | Key_Space \<Rightarrow> fire_bullet g
         | Key_Q \<Rightarrow> g\<lparr>quit_requested := True\<rparr>
         | Key_R \<Rightarrow>
             g\<lparr>worker_running := False,
               worker_state :=
                 update_key_state \<lparr>key_left = False, key_right = False\<rparr> (reset_state raw c),
               snapshot := map_option (\<lambda>(px, py, shared). (px, py, False)) (snapshot g),
               gui_keys := \<lparr>key_left = False, key_right = False\<rparr>,
               selecting_difficulty := True\<rparr>
         | Key_P \<Rightarrow> g\<lparr>worker_state := (worker_state g)\<lparr>paused := \<not> paused (worker_state g)\<rparr>\<rparr>
         | Key_L \<Rightarrow> g\<lparr>worker_state := (worker_state g)\<lparr>lives := lives (worker_state g) + 1\<rparr>\<rparr>
         | Key_S \<Rightarrow> g\<lparr>worker_state := (worker_state g)\<lparr>score := score (worker_state g) + 100\<rparr>\<rparr>
         | Key_M \<Rightarrow> g\<lparr>worker_state := spawn_mystery_ship side (worker_state g)\<rparr>
         | _ \<Rightarrow> g)
      in if selecting_difficulty g1 then
           (if k = Key_E then start_game (CHR ''E'') raw c (g1\<lparr>selecting_difficulty := False\<rparr>)
            else if k = Key_M then start_game (CHR ''M'') raw c (g1\<lparr>selecting_difficulty := False\<rparr>)
            else if k = Key_H then start_game (CHR ''H'') raw c (g1\<lparr>selecting_difficulty := False\<rparr>)
            else g1)
         else g1\<lparr>worker_state := update_key_state (gui_keys g1) (worker_state g1)\<rparr>)"

definition keyReleaseEvent :: "key \<Rightarrow> gui \<Rightarrow> gui" where
  "keyReleaseEvent k g =
     (let g1 = (if k = Key_Left then g\<lparr>gui_keys := (gui_keys g)\<lparr>key_left := False\<rparr>\<rparr>
                else if k = Key_Right then g\<lparr>gui_keys := (gui_keys g)\<lparr>key_right := False\<rparr>\<rparr>
                else g);
          g2 = (if k = Key_Space then g1\<lparr>space_pressed := False\<rparr> else g1)
      in g2\<lparr>worker_state := update_key_state (gui_keys g2) (worker_state g2)\<rparr>)"

definition receive_state :: "gui \<Rightarrow> event \<Rightarrow> gui" where
  "receive_state g e =
     (case e of
        AlienFire \<Rightarrow> g\<lparr>snapshot := None\<rparr>
      | StateUpdate s \<Rightarrow> g\<lparr>snapshot := Some (player_x s, player_y s, True)\<rparr>
      | RequestInitials n \<Rightarrow> g)"

text \<open>What can happen to the widget and its worker between two resets and at a reset.\<close>

datatype action =
    Tick rnd
  | Press key bool nat "nat \<Rightarrow> nat"
  | Release key

fun step :: "gui \<Rightarrow> action \<Rightarrow> gui" where
  "step g (Tick r) =
     (if worker_running g then
        (case run_step (worker_difficulty g) r (worker_state g) of
           (s, evs) \<Rightarrow> foldl receive_state (g\<lparr>worker_state := s\<rparr>) evs)
      else g)"
| "step g (Press k side raw c) = keyPressEvent k side raw c g"
| "step g (Release k) = keyReleaseEvent k g"

text \<open>The actions that call \<^verbatim>\<open>reset_state\<close>: R, and a difficulty key on the selection screen.\<close>

fun resets :: "gui \<Rightarrow> action \<Rightarrow> bool" where
  "resets g (Press k side raw c) =
     (k = Key_R \<or> (selecting_difficulty g \<and> (k = Key_E \<or> k = Key_M \<or> k = Key_H)))"
| "resets g a = False"

fun no_reset :: "gui \<Rightarrow> action list \<Rightarrow> bool" where
  "no_reset g [] = True"
| "no_reset g (a # as) = (\<not> resets g a \<and> no_reset (step g a) as)"

section \<open>Sample inputs\<close>

definition zero_draws :: "nat \<Rightarrow> nat" where
  "zero_draws k = 0"

definition sample_rnd :: rnd where
  "sample_rnd = \<lparr>r_fire = False, r_shooter = 0, r_side = True, r_exit = 0, r_hit = 400,
                 r_colors = zero_draws\<rparr>"

definition one_alien :: alien where
  "one_alien = \<lparr>alien_x = 500, alien_y = 100, alien_type = ''crab'', color_index = 2, frame = 0\<rparr>"

definition base_state :: game_state where
  "base_state =
     \<lparr>player_x = 470, player_y = 710, bullets = [], alien_bullets = [], aliens = [one_alien],
      alien_direction = - 1, alien_speed = 10, alien_anim_counter = 3, score = 0, lives = 3,
      level = 1, game_over = False, keys_pressed = \<lparr>key_left = False, key_right = False\<rparr>,
      alien_shoot_cooldown = 5, paused = False, shots_fired = 0, mystery_ship = None,
      mystery_ship_direction = 1, mystery_ship_cooldown = 600\<rparr>"

definition ship_state :: game_state where
  "ship_state = base_state\<lparr>bullets := [(120, 60)], shots_fired := 2, mystery_ship := Some (100, 50)\<rparr>"

definition last_alien_state :: game_state where
  "last_alien_state = base_state\<lparr>bullets := [(510, 130)]\<rparr>"

definition one_lethal_bullet :: game_state where
  "one_lethal_bullet = base_state\<lparr>lives := 1, alien_bullets := [(480, 700)]\<rparr>"

definition two_lethal_bullets :: game_state where
  "two_lethal_bullets = base_state\<lparr>lives := 1, alien_bullets := [(480, 700), (500, 705)]\<rparr>"

definition edge_state :: game_state where
  "edge_state = base_state\<lparr>aliens := [one_alien\<lparr>alien_x := 5\<rparr>, one_alien\<lparr>alien_x := 10\<rparr>]\<rparr>"

definition crossing_state :: game_state where
  "crossing_state = base_state\<lparr>bullets := [(3, 5)], alien_bullets := [(1, 799)]\<rparr>"

definition sample_gui :: gui where
  "sample_gui =
     \<lparr>worker_state = ship_state, worker_difficulty = CHR ''H'', worker_running = True,
      gui_keys = \<lparr>key_left = False, key_right = False\<rparr>, selecting_difficulty = False,
      space_pressed = False, snapshot = Some (470, 710, True), quit_requested = False\<rparr>"

definition bad_shape :: json where
  "bad_shape = JDict [(ascii ''initials'', JStr (ascii ''AAA'')), (ascii ''score'', JInt 100)]"

definition sample_table :: "entry list" where
  "sample_table =
     [\<lparr>entry_initials = ascii ''AAA'', entry_score = 500\<rparr>,
      \<lparr>entry_initials = ascii ''BBB'', entry_score = 300\<rparr>]"

section \<open>Helper facts\<close>

lemmas game_consts = WORLD_W_def WORLD_H_def PLAYER_WIDTH_def PLAYER_HEIGHT_def GROUND_HEIGHT_def

lemmas rect_defs = intersects_def QRect_def isNull_def bullet_rect_def Let_def

lemmas phase_defs = player_movement_def move_player_def move_bullets_def advance_bullets_def
  advance_alien_bullets_def move_aliens_def shift_alien_def at_edge_def toggle_frame_def
  drop_alien_def ANIM_SPEED_def alien_shooting_def cooldowns_def mystery_ship_movement_def
  alien_collisions_def hits_alien_def multiplier_def mystery_ship_collisions_def hits_ship_def
  calculate_mystery_ship_score_def player_collisions_def hits_player_def level_completion_def
  aliens_reach_bottom_def reached_bottom_def advance_entities_def resolve_collisions_def
  update_logic_def run_step_def

lemmas sample_defs = base_state_def one_alien_def sample_rnd_def ship_state_def
  last_alien_state_def one_lethal_bullet_def two_lethal_bullets_def edge_state_def
  crossing_state_def

subsection \<open>What each phase leaves unchanged\<close>

lemma player_movement_frame:
  "alien_direction (player_movement s) = alien_direction s"
  "shots_fired (player_movement s) = shots_fired s"
  "player_y (player_movement s) = player_y s"
  "level (player_movement s) = level s"
  "alien_speed (player_movement s) = alien_speed s"
  "alien_anim_counter (player_movement s) = alien_anim_counter s"
  "aliens (player_movement s) = aliens s"
  "player_x (player_movement s) = move_player (keys_pressed s) (player_x s)"
  by (simp_all add: player_movement_def)

lemma move_bullets_frame:
  "alien_direction (move_bullets s) = alien_direction s"
  "shots_fired (move_bullets s) = shots_fired s"
  "player_x (move_bullets s) = player_x s"
  "player_y (move_bullets s) = player_y s"
  "level (move_bullets s) = level s"
  "alien_speed (move_bullets s) = alien_speed s"
  "alien_anim_counter (move_bullets s) = alien_anim_counter s"
  "aliens (move_bullets s) = aliens s"
  by (simp_all add: move_bullets_def)

lemma move_aliens_frame:
  "shots_fired (move_aliens s) = shots_fired s"
  "player_x (move_aliens s) = player_x s"
  "player_y (move_aliens s) = player_y s"
  "level (move_aliens s) = level s"
  "alien_speed (move_aliens s) = alien_speed s"
  by (simp_all add: move_aliens_def Let_def)

lemma alien_shooting_frame:
  "alien_direction (fst (alien_shooting d r s)) = alien_direction s"
  "shots_fired (fst (alien_shooting d r s)) = shots_fired s"
  "player_x (fst (alien_shooting d r s)) = player_x s"
  "player_y (fst (alien_shooting d r s)) = player_y s"
  "level (fst (alien_shooting d r s)) = level s"
  "alien_speed (fst (alien_shooting d r s)) = alien_speed s"
  "alien_anim_counter (fst (alien_shooting d r s)) = alien_anim_counter s"
  "aliens (fst (alien_shooting d r s)) = aliens s"
  by (simp_all add: alien_shooting_def Let_def)

lemma mystery_ship_movement_frame:
  "alien_direction (mystery_ship_movement r s) = alien_direction s"
  "shots_fired (mystery_ship_movement r s) = shots_fired s"
  "player_x (mystery_ship_movement r s) = player_x s"
  "player_y (mystery_ship_movement r s) = player_y s"
  "level (mystery_ship_movement r s) = level s"
  "alien_speed (mystery_ship_movement r s) = alien_speed s"
  "alien_anim_counter (mystery_ship_movement r s) = alien_anim_counter s"
  "aliens (mystery_ship_movement r s) = aliens s"
  by (simp_all add: mystery_ship_movement_def Let_def split: option.split)

lemma alien_collisions_frame:
  "alien_direction (alien_collisions d s) = alien_direction s"
  "shots_fired (alien_collisions d s) = shots_fired s"
  "player_x (alien_collisions d s) = player_x s"
  "player_y (alien_collisions d s) = player_y s"
  "level (alien_collisions d s) = level s"
  "alien_speed (alien_collisions d s) = alien_speed s"
  "alien_anim_counter (alien_collisions d s) = alien_anim_counter s"
  by (simp_all add: alien_collisions_def split: prod.split)

lemma mystery_ship_collisions_frame:
  "alien_direction (mystery_ship_collisions r s) = alien_direction s"
  "player_x (mystery_ship_collisions r s) = player_x s"
  "player_y (mystery_ship_collisions r s) = player_y s"
  "level (mystery_ship_collisions r s) = level s"
  "alien_speed (mystery_ship_collisions r s) = alien_speed s"
  "alien_anim_counter (mystery_ship_collisions r s) = alien_anim_counter s"
  "aliens (mystery_ship_collisions r s) = aliens s"
  by (simp_all add: mystery_ship_collisions_def calculate_mystery_ship_score_def Let_def
      split: option.split)

lemma mystery_ship_collisions_shots:
  "shots_fired (mystery_ship_collisions r s)
   = shots_fired s + (if ship_destroyed r s then 1 else 0)"
  by (simp add: mystery_ship_collisions_def calculate_mystery_ship_score_def Let_def
      ship_destroyed_def split: option.split)

lemma player_hit_loop_frame:
  "alien_direction (fst (player_hit_loop bs (s, ev))) = alien_direction s
   \<and> shots_fired (fst (player_hit_loop bs (s, ev))) = shots_fired s
   \<and> player_x (fst (player_hit_loop bs (s, ev))) = player_x s
   \<and> player_y (fst (player_hit_loop bs (s, ev))) = player_y s
   \<and> level (fst (player_hit_loop bs (s, ev))) = level s
   \<and> alien_speed (fst (player_hit_loop bs (s, ev))) = alien_speed s
   \<and> alien_anim_counter (fst (player_hit_loop bs (s, ev))) = alien_anim_counter s
   \<and> aliens (fst (player_hit_loop bs (s, ev))) = aliens s"
  by (induction bs arbitrary: s ev) (simp_all add: Let_def)

lemma player_collisions_frame:
  "alien_direction (fst (player_collisions s)) = alien_direction s"
  "shots_fired (fst (player_collisions s)) = shots_fired s"
  "player_x (fst (player_collisions s)) = player_x s"
  "player_y (fst (player_collisions s)) = player_y s"
  "level (fst (player_collisions s)) = level s"
  "alien_speed (fst (player_collisions s)) = alien_speed s"
  "alien_anim_counter (fst (player_collisions s)) = alien_anim_counter s"
  "aliens (fst (player_collisions s)) = aliens s"
  using player_hit_loop_frame [of "alien_bullets s" s "[]"]
  by (simp_all add: player_collisions_def)

lemma level_completion_frame:
  "alien_direction (level_completion r s) = alien_direction s"
  "shots_fired (level_completion r s) = shots_fired s"
  "player_x (level_completion r s) = player_x s"
  "player_y (level_completion r s) = player_y s"
  "alien_anim_counter (level_completion r s) = alien_anim_counter s"
  by (simp_all add: level_completion_def)

lemma aliens_reach_bottom_frame:
  "alien_direction (fst (aliens_reach_bottom s)) = alien_direction s"
  "shots_fired (fst (aliens_reach_bottom s)) = shots_fired s"
  "player_x (fst (aliens_reach_bottom s)) = player_x s"
  "player_y (fst (aliens_reach_bottom s)) = player_y s"
  "level (fst (aliens_reach_bottom s)) = level s"
  "alien_speed (fst (aliens_reach_bottom s)) = alien_speed s"
  "alien_anim_counter (fst (aliens_reach_bottom s)) = alien_anim_counter s"
  "aliens (fst (aliens_reach_bottom s)) = aliens s"
  by (simp_all add: aliens_reach_bottom_def)

lemmas frames = player_movement_frame move_bullets_frame move_aliens_frame alien_shooting_frame
  mystery_ship_movement_frame alien_collisions_frame mystery_ship_collisions_frame
  player_collisions_frame level_completion_frame aliens_reach_bottom_frame

lemma move_aliens_cong:
  "aliens s' = aliens s \<Longrightarrow> alien_direction s' = alien_direction s \<Longrightarrow>
   alien_speed s' = alien_speed s \<Longrightarrow> alien_anim_counter s' = alien_anim_counter s \<Longrightarrow>
   aliens (move_aliens s') = aliens (move_aliens s)
   \<and> alien_direction (move_aliens s') = alien_direction (move_aliens s)
   \<and> alien_anim_counter (move_aliens s') = alien_anim_counter (move_aliens s)"
  by (simp add: move_aliens_def Let_def)

lemma advance_entities_fields:
  "alien_direction (fst (advance_entities d r s)) = alien_direction (move_aliens s)"
  "alien_anim_counter (fst (advance_entities d r s)) = alien_anim_counter (move_aliens s)"
  "shots_fired (fst (advance_entities d r s)) = shots_fired s"
  "level (fst (advance_entities d r s)) = level s"
  "alien_speed (fst (advance_entities d r s)) = alien_speed s"
  "player_x (fst (advance_entities d r s)) = move_player (keys_pressed s) (player_x s)"
  "player_y (fst (advance_entities d r s)) = player_y s"
  using move_aliens_cong [of "move_bullets (player_movement s)" s]
  by (simp_all add: advance_entities_def Let_def split_beta frames)

lemma resolve_collisions_fields:
  "alien_direction (fst (resolve_collisions d r s)) = alien_direction (move_aliens s)"
  "alien_anim_counter (fst (resolve_collisions d r s)) = alien_anim_counter (move_aliens s)"
  "shots_fired (fst (resolve_collisions d r s))
   = shots_fired s + (if ship_destroyed r (fst (advance_entities d r s)) then 1 else 0)"
  "level (fst (resolve_collisions d r s)) = level s"
  "alien_speed (fst (resolve_collisions d r s)) = alien_speed s"
  "player_x (fst (resolve_collisions d r s)) = move_player (keys_pressed s) (player_x s)"
  "player_y (fst (resolve_collisions d r s)) = player_y s"
  by (simp_all add: resolve_collisions_def Let_def split_beta frames advance_entities_fields
      mystery_ship_collisions_shots)

lemma update_logic_fields:
  assumes "\<not> game_over s"
  shows "alien_direction (fst (update_logic d r s)) = alien_direction (move_aliens s)"
    and "alien_anim_counter (fst (update_logic d r s)) = alien_anim_counter (move_aliens s)"
    and "shots_fired (fst (update_logic d r s))
         = shots_fired s + (if ship_destroyed r (fst (advance_entities d r s)) then 1 else 0)"
    and "player_x (fst (update_logic d r s)) = move_player (keys_pressed s) (player_x s)"
    and "player_y (fst (update_logic d r s)) = player_y s"
  using assms
  by (simp_all add: update_logic_def Let_def split_beta frames resolve_collisions_fields)

lemma update_logic_game_over: "game_over s \<Longrightarrow> update_logic d r s = (s, [])"
  by (simp add: update_logic_def)

lemma update_logic_level:
  assumes "\<not> game_over s"
  shows "level (fst (update_logic d r s))
         = (if aliens (fst (resolve_collisions d r s)) = [] then level s + 1 else level s)"
    and "alien_speed (fst (update_logic d r s))
         = (if aliens (fst (resolve_collisions d r s)) = [] then alien_speed s + 2
            else alien_speed s)"
    and "aliens (fst (update_logic d r s))
         = (if aliens (fst (resolve_collisions d r s)) = [] then create_aliens (r_colors r)
            else aliens (fst (resolve_collisions d r s)))"
  using assms
  by (simp_all add: update_logic_def Let_def split_beta level_completion_def
      aliens_reach_bottom_frame resolve_collisions_fields)

lemma collide_subseq: "subseq (fst (collide d as bs sc)) as"
proof (induction as arbitrary: bs sc)
  case Nil
  show ?case by simp
next
  case (Cons a as)
  show ?case
  proof (cases "find (hits_alien a) bs")
    case None
    with Cons [of bs sc] show ?thesis
      by (simp add: split_beta)
  next
    case (Some b)
    with Cons [of "remove1 b bs" "sc + 10 * multiplier d"] show ?thesis
      by (simp add: list_emb_Cons)
  qed
qed

lemma resolve_collisions_aliens:
  "subseq (aliens (fst (resolve_collisions d r s))) (aliens (move_aliens s))"
proof -
  let ?s5 = "mystery_ship_movement r
      (fst (alien_shooting d r (move_aliens (move_bullets (player_movement s)))))"
  have moved: "aliens ?s5 = aliens (move_aliens s)"
    using move_aliens_cong [of "move_bullets (player_movement s)" s]
    by (simp add: frames)
  have "aliens (fst (resolve_collisions d r s)) = aliens (alien_collisions d ?s5)"
    by (simp add: resolve_collisions_def advance_entities_def Let_def split_beta frames)
  also have "\<dots> = fst (collide d (aliens ?s5) (bullets ?s5) (score ?s5))"
    by (simp add: alien_collisions_def split_beta)
  finally show ?thesis
    using collide_subseq [of d "aliens ?s5" "bullets ?s5" "score ?s5"] moved by simp
qed

section \<open>Mystery-ship scoring\<close>



section \<open>The spawn countdown\<close>

lemma randint_range: "a \<le> b \<Longrightarrow> a \<le> randint a b raw \<and> randint a b raw \<le> b"
proof -
  assume ab: "a \<le> b"
  then have pos: "0 < nat (b - a + 1)" by simp
  have "raw mod nat (b - a + 1) < nat (b - a + 1)"
    using pos by (rule mod_less_divisor)
  then have "int (raw mod nat (b - a + 1)) < b - a + 1"
    using ab by linarith
  then show ?thesis by (simp add: randint_def)
qed

text \<open>
  C9, as stated, fails: \<^verbatim>\<open>random.randint(600, 1000)\<close> includes its upper end, so a drawn
  countdown can be 1000, which is outside \<open>[600, 1000)\<close>.
\<close>

theorem C9_countdown_may_be_1000:
  "\<not> (mystery_ship_cooldown (reset_state 400 zero_draws) < 1000)"
  by (simp add: reset_state_def randint_def)

text \<open>
  C9, amended. At each of the three places where the countdown is drawn (session reset,
  the ship leaving the world with \<open>x < -60\<close> or \<open>x > WORLD_W\<close>, the ship destroyed by a
  player bullet) the new value lies in the closed range from 600 to 1000.
\<close>

theorem C9_countdown_closed_range:
  "600 \<le> mystery_ship_cooldown (reset_state raw c)
   \<and> mystery_ship_cooldown (reset_state raw c) \<le> 1000
   \<and> (mystery_ship s = Some (mx, my)
        \<and> (mx + mystery_ship_direction s * 5 < - 60 \<or> mx + mystery_ship_direction s * 5 > WORLD_W)
      \<longrightarrow> mystery_ship (mystery_ship_movement r s) = None
          \<and> 600 \<le> mystery_ship_cooldown (mystery_ship_movement r s)
          \<and> mystery_ship_cooldown (mystery_ship_movement r s) \<le> 1000)
   \<and> (mystery_ship s = Some m \<and> find (hits_ship m) (bullets s) = Some b
      \<longrightarrow> mystery_ship (mystery_ship_collisions r s) = None
          \<and> 600 \<le> mystery_ship_cooldown (mystery_ship_collisions r s)
          \<and> mystery_ship_cooldown (mystery_ship_collisions r s) \<le> 1000)"
proof -
  have rng: "\<And>raw. 600 \<le> randint 600 1000 raw \<and> randint 600 1000 raw \<le> 1000"
    by (rule randint_range) simp
  have reset: "mystery_ship_cooldown (reset_state raw c) = randint 600 1000 raw"
    by (simp add: reset_state_def)
  have leave: "mystery_ship s = Some (mx, my)
        \<and> (mx + mystery_ship_direction s * 5 < - 60 \<or> mx + mystery_ship_direction s * 5 > WORLD_W)
      \<longrightarrow> mystery_ship (mystery_ship_movement r s) = None
          \<and> mystery_ship_cooldown (mystery_ship_movement r s) = randint 600 1000 (r_exit r)"
    by (auto simp: mystery_ship_movement_def Let_def)
  have destroyed: "mystery_ship s = Some m \<and> find (hits_ship m) (bullets s) = Some b
      \<longrightarrow> mystery_ship (mystery_ship_collisions r s) = None
          \<and> mystery_ship_cooldown (mystery_ship_collisions r s) = randint 600 1000 (r_hit r)"
    by (simp add: mystery_ship_collisions_def calculate_mystery_ship_score_def Let_def)
  from rng [of raw] rng [of "r_exit r"] rng [of "r_hit r"] reset leave destroyed
  show ?thesis by simp
qed

theorem C9_countdown_closed_range_witness:
  "mystery_ship ship_state = Some (100, 50)
   \<and> find (hits_ship (100, 50)) (bullets ship_state) = Some (120, 60)
   \<and> mystery_ship_cooldown (mystery_ship_collisions sample_rnd ship_state) = 1000
   \<and> mystery_ship_cooldown (reset_state 7 zero_draws) = 607"
proof -
  have a: "mystery_ship ship_state = Some (100, 50)"
    by (simp add: ship_state_def)
  have b: "find (hits_ship (100, 50)) (bullets ship_state) = Some (120, 60)"
    by (simp add: ship_state_def hits_ship_def rect_defs)
  have c: "mystery_ship_cooldown (mystery_ship_collisions sample_rnd ship_state) = 1000"
    using a b
    by (simp add: mystery_ship_collisions_def calculate_mystery_ship_score_def Let_def
        sample_rnd_def randint_def)
  have d: "mystery_ship_cooldown (reset_state 7 zero_draws) = 607"
    by (simp add: reset_state_def randint_def)
  from C9_countdown_closed_range [of 7 zero_draws ship_state 100 50 sample_rnd "(100, 50)" "(120, 60)"]
    a b c d show ?thesis by simp
qed


section \<open>Formation advance\<close>

text \<open>
  C4. In the formation advance every alien moves by \<open>alien_direction * alien_speed\<close>; an
  edge hit is recorded when some alien's position after the move is \<open>\<le> 0\<close> or
  \<open>\<ge> WORLD_W - 40\<close>. With an edge hit the direction is negated once and every alien
  moves down by exactly 20, however many aliens are at the edge; without one neither
  changes. This is all a tick does to the formation's direction and height: after the
  whole tick the direction is the one the advance left, and, unless the formation was
  emptied and rebuilt, the aliens are a subsequence of the advanced formation, so each
  of them has moved by one step sideways and, on an edge hit, by 20 down, once.
\<close>

theorem C4_one_flip_one_shift:
  "length (aliens (move_aliens s)) = length (aliens s)
   \<and> (\<forall>i < length (aliens s).
        alien_x (aliens (move_aliens s) ! i)
          = alien_x (aliens s ! i) + alien_direction s * alien_speed s
        \<and> alien_y (aliens (move_aliens s) ! i)
          = alien_y (aliens s ! i)
            + (if (\<exists>a \<in> set (aliens s).
                     alien_x a + alien_direction s * alien_speed s \<le> 0
                     \<or> alien_x a + alien_direction s * alien_speed s \<ge> WORLD_W - 40)
               then 20 else 0))
   \<and> alien_direction (move_aliens s)
       = (if (\<exists>a \<in> set (aliens s).
                alien_x a + alien_direction s * alien_speed s \<le> 0
                \<or> alien_x a + alien_direction s * alien_speed s \<ge> WORLD_W - 40)
          then - alien_direction s else alien_direction s)
   \<and> (\<not> game_over s \<longrightarrow>
        alien_direction (fst (update_logic d r s)) = alien_direction (move_aliens s))
   \<and> (game_over s \<longrightarrow> fst (update_logic d r s) = s)
   \<and> subseq (aliens (fst (resolve_collisions d r s))) (aliens (move_aliens s))
   \<and> (\<not> game_over s \<and> aliens (fst (resolve_collisions d r s)) \<noteq> [] \<longrightarrow>
        subseq (aliens (fst (update_logic d r s))) (aliens (move_aliens s))
        \<and> (\<forall>a \<in> set (aliens (fst (update_logic d r s))).
              \<exists>b \<in> set (aliens s).
                alien_x a = alien_x b + alien_direction s * alien_speed s
                \<and> alien_y a
                  = alien_y b
                    + (if (\<exists>a \<in> set (aliens s).
                             alien_x a + alien_direction s * alien_speed s \<le> 0
                             \<or> alien_x a + alien_direction s * alien_speed s \<ge> WORLD_W - 40)
                       then 20 else 0)))"
proof -
  let ?dx = "alien_direction s * alien_speed s"
  let ?edge = "\<exists>a \<in> set (aliens s). alien_x a + ?dx \<le> 0 \<or> alien_x a + ?dx \<ge> WORLD_W - 40"
  let ?dy = "if ?edge then 20 else (0::int)"
  have edge: "list_ex at_edge (map (shift_alien ?dx) (aliens s)) = ?edge"
    by (simp add: list_ex_iff at_edge_def shift_alien_def)
  have len: "length (aliens (move_aliens s)) = length (aliens s)"
    by (simp add: move_aliens_def Let_def)
  have pos: "\<forall>i < length (aliens s).
        alien_x (aliens (move_aliens s) ! i) = alien_x (aliens s ! i) + ?dx
        \<and> alien_y (aliens (move_aliens s) ! i) = alien_y (aliens s ! i) + ?dy"
    unfolding move_aliens_def Let_def edge
    by (simp add: shift_alien_def toggle_frame_def drop_alien_def)
  have dir: "alien_direction (move_aliens s) = (if ?edge then - alien_direction s else alien_direction s)"
    unfolding move_aliens_def Let_def edge by simp
  have tick: "\<not> game_over s \<longrightarrow>
        alien_direction (fst (update_logic d r s)) = alien_direction (move_aliens s)"
    by (simp add: update_logic_fields)
  have over: "game_over s \<longrightarrow> fst (update_logic d r s) = s"
    by (simp add: update_logic_game_over)
  have sub: "subseq (aliens (fst (resolve_collisions d r s))) (aliens (move_aliens s))"
    by (rule resolve_collisions_aliens)
  have moved: "\<exists>b \<in> set (aliens s). alien_x a = alien_x b + ?dx \<and> alien_y a = alien_y b + ?dy"
    if "a \<in> set (aliens (move_aliens s))" for a
  proof -
    from that len obtain i where i: "i < length (aliens s)" "a = aliens (move_aliens s) ! i"
      by (auto simp: in_set_conv_nth)
    with pos have "alien_x a = alien_x (aliens s ! i) + ?dx \<and> alien_y a = alien_y (aliens s ! i) + ?dy"
      by simp
    moreover from i have "aliens s ! i \<in> set (aliens s)" by simp
    ultimately show ?thesis by blast
  qed
  have survivors: "\<not> game_over s \<and> aliens (fst (resolve_collisions d r s)) \<noteq> [] \<longrightarrow>
        subseq (aliens (fst (update_logic d r s))) (aliens (move_aliens s))
        \<and> (\<forall>a \<in> set (aliens (fst (update_logic d r s))).
              \<exists>b \<in> set (aliens s). alien_x a = alien_x b + ?dx \<and> alien_y a = alien_y b + ?dy)"
  proof (intro impI conjI ballI)
    assume h: "\<not> game_over s \<and> aliens (fst (resolve_collisions d r s)) \<noteq> []"
    then have same: "aliens (fst (update_logic d r s)) = aliens (fst (resolve_collisions d r s))"
      by (simp add: update_logic_level)
    with sub show s2: "subseq (aliens (fst (update_logic d r s))) (aliens (move_aliens s))"
      by simp
    fix a assume "a \<in> set (aliens (fst (update_logic d r s)))"
    with s2 have "a \<in> set (aliens (move_aliens s))"
      by (auto elim: list_emb_set)
    then show "\<exists>b \<in> set (aliens s). alien_x a = alien_x b + ?dx \<and> alien_y a = alien_y b + ?dy"
      by (rule moved)
  qed
  from len pos dir tick over sub survivors show ?thesis by blast
qed

theorem C4_one_flip_one_shift_witness:
  "\<not> game_over edge_state
   \<and> alien_direction edge_state = - 1
   \<and> map alien_y (aliens edge_state) = [100, 100]
   \<and> map alien_x (aliens (move_aliens edge_state)) = [- 5, 0]
   \<and> map alien_y (aliens (move_aliens edge_state)) = [120, 120]
   \<and> alien_direction (move_aliens edge_state) = 1
   \<and> alien_direction (fst (update_logic (CHR ''E'') sample_rnd edge_state)) = 1
   \<and> aliens (fst (resolve_collisions (CHR ''E'') sample_rnd edge_state)) \<noteq> []
   \<and> map alien_y (aliens (fst (update_logic (CHR ''E'') sample_rnd edge_state))) = [120, 120]
   \<and> subseq (aliens (fst (update_logic (CHR ''E'') sample_rnd edge_state)))
        (aliens (move_aliens edge_state))"
proof -
  have a: "\<not> game_over edge_state" "alien_direction edge_state = - 1"
    "map alien_y (aliens edge_state) = [100, 100]"
    by (simp_all add: edge_state_def base_state_def one_alien_def)
  have b: "map alien_x (aliens (move_aliens edge_state)) = [- 5, 0]"
    "map alien_y (aliens (move_aliens edge_state)) = [120, 120]"
    "alien_direction (move_aliens edge_state) = 1"
    by (simp_all add: edge_state_def base_state_def one_alien_def move_aliens_def Let_def
        shift_alien_def at_edge_def drop_alien_def toggle_frame_def ANIM_SPEED_def WORLD_W_def)
  have c: "aliens (fst (resolve_collisions (CHR ''E'') sample_rnd edge_state)) \<noteq> []"
    by (simp add: phase_defs sample_defs rect_defs game_consts)
  have e: "map alien_y (aliens (fst (update_logic (CHR ''E'') sample_rnd edge_state))) = [120, 120]"
    by (simp add: phase_defs sample_defs rect_defs game_consts)
  note inst = C4_one_flip_one_shift [of edge_state "CHR ''E''" sample_rnd]
  from inst a c
  have f: "subseq (aliens (fst (update_logic (CHR ''E'') sample_rnd edge_state)))
        (aliens (move_aliens edge_state))"
    by blast
  from inst a
  have g: "alien_direction (fst (update_logic (CHR ''E'') sample_rnd edge_state))
      = alien_direction (move_aliens edge_state)"
    by blast
  from a b c e f g show ?thesis by simp
qed

subsection \<open>Player movement\<close>

lemma move_player_range:
  "0 \<le> px \<Longrightarrow> px \<le> WORLD_W - PLAYER_WIDTH \<Longrightarrow>
   0 \<le> move_player k px \<and> move_player k px \<le> WORLD_W - PLAYER_WIDTH"
  by (simp add: move_player_def Let_def game_consts)

lemma run_step_player_x:
  "player_x (fst (run_step d r s))
   = (if paused s \<or> game_over s then player_x s else move_player (keys_pressed s) (player_x s))"
  by (simp add: run_step_def update_logic_fields update_logic_game_over)

lemma run_ticks_range:
  "0 \<le> player_x s \<Longrightarrow> player_x s \<le> WORLD_W - PLAYER_WIDTH \<Longrightarrow>
   0 \<le> player_x (run_ticks d s inputs) \<and> player_x (run_ticks d s inputs) \<le> WORLD_W - PLAYER_WIDTH"
proof (induction inputs arbitrary: s)
  case Nil
  then show ?case by simp
next
  case (Cons kr inputs)
  obtain k r where kr: "kr = (k, r)" by (cases kr)
  let ?s1 = "fst (run_step d r (update_key_state k s))"
  have "0 \<le> player_x ?s1 \<and> player_x ?s1 \<le> WORLD_W - PLAYER_WIDTH"
    using Cons.prems move_player_range [of "player_x s" k]
    by (simp add: run_step_player_x update_key_state_def)
  then show ?case
    using Cons.IH [of ?s1] by (simp add: kr)
qed

text \<open>
  C5. Starting inside \<open>[0, WORLD_W - PLAYER_WIDTH]\<close> (as \<^verbatim>\<open>reset_state\<close> does), the player's
  x stays inside after every tick of every run, whatever the key flags. A tick moves the
  player by a step of 10 to the left (not below 0), to the right (not above
  \<open>WORLD_W - PLAYER_WIDTH\<close>), or not at all; clamping the result again changes nothing,
  and the movement is monotone in the position.
\<close>

theorem C5_player_stays_in_world:
  "(0 \<le> player_x s \<and> player_x s \<le> WORLD_W - PLAYER_WIDTH \<longrightarrow>
      0 \<le> player_x (run_ticks d s inputs)
      \<and> player_x (run_ticks d s inputs) \<le> WORLD_W - PLAYER_WIDTH)
   \<and> 0 \<le> player_x (run_ticks d (reset_state raw c) inputs)
   \<and> player_x (run_ticks d (reset_state raw c) inputs) \<le> WORLD_W - PLAYER_WIDTH
   \<and> (\<not> game_over s \<longrightarrow>
        player_x (fst (update_logic d r s)) = move_player (keys_pressed s) (player_x s))
   \<and> move_player \<lparr>key_left = False, key_right = False\<rparr> px = px
   \<and> move_player \<lparr>key_left = True, key_right = False\<rparr> px = max 0 (px - 10)
   \<and> move_player \<lparr>key_left = False, key_right = True\<rparr> px = min (WORLD_W - PLAYER_WIDTH) (px + 10)
   \<and> (0 \<le> px \<and> px \<le> WORLD_W - PLAYER_WIDTH \<longrightarrow>
        \<bar>move_player k px - px\<bar> \<le> 10
        \<and> max 0 (min (WORLD_W - PLAYER_WIDTH) (move_player k px)) = move_player k px)
   \<and> (px \<le> px' \<longrightarrow> move_player k px \<le> move_player k px')"
proof -
  have inv: "0 \<le> player_x s \<and> player_x s \<le> WORLD_W - PLAYER_WIDTH \<longrightarrow>
      0 \<le> player_x (run_ticks d s inputs)
      \<and> player_x (run_ticks d s inputs) \<le> WORLD_W - PLAYER_WIDTH"
    using run_ticks_range by blast
  have init: "0 \<le> player_x (run_ticks d (reset_state raw c) inputs)
      \<and> player_x (run_ticks d (reset_state raw c) inputs) \<le> WORLD_W - PLAYER_WIDTH"
    by (rule run_ticks_range) (simp_all add: reset_state_def game_consts)
  have tick: "\<not> game_over s \<longrightarrow>
        player_x (fst (update_logic d r s)) = move_player (keys_pressed s) (player_x s)"
    by (simp add: update_logic_fields)
  have steps: "move_player \<lparr>key_left = False, key_right = False\<rparr> px = px"
    "move_player \<lparr>key_left = True, key_right = False\<rparr> px = max 0 (px - 10)"
    "move_player \<lparr>key_left = False, key_right = True\<rparr> px = min (WORLD_W - PLAYER_WIDTH) (px + 10)"
    by (simp_all add: move_player_def)
  have clamp: "0 \<le> px \<and> px \<le> WORLD_W - PLAYER_WIDTH \<longrightarrow>
        \<bar>move_player k px - px\<bar> \<le> 10
        \<and> max 0 (min (WORLD_W - PLAYER_WIDTH) (move_player k px)) = move_player k px"
    by (auto simp: move_player_def Let_def game_consts max_def min_def)
  have mono: "px \<le> px' \<longrightarrow> move_player k px \<le> move_player k px'"
    by (auto simp: move_player_def Let_def game_consts max_def min_def)
  from inv init tick steps clamp mono show ?thesis by blast
qed

theorem C5_player_stays_in_world_witness:
  "0 \<le> player_x base_state \<and> player_x base_state \<le> WORLD_W - PLAYER_WIDTH
   \<and> \<not> game_over base_state
   \<and> (0::int) \<le> 935 \<and> (935::int) \<le> WORLD_W - PLAYER_WIDTH \<and> (935::int) \<le> 935
   \<and> 0 \<le> player_x (run_ticks (CHR ''E'') base_state
            [(\<lparr>key_left = True, key_right = False\<rparr>, sample_rnd)])
   \<and> player_x (run_ticks (CHR ''E'') base_state
            [(\<lparr>key_left = True, key_right = False\<rparr>, sample_rnd)]) \<le> WORLD_W - PLAYER_WIDTH
   \<and> player_x (fst (update_logic (CHR ''E'') sample_rnd base_state)) = 470
   \<and> move_player \<lparr>key_left = False, key_right = True\<rparr> 935 = 940"
proof -
  have a: "0 \<le> player_x base_state \<and> player_x base_state \<le> WORLD_W - PLAYER_WIDTH"
    "\<not> game_over base_state" "player_x base_state = 470"
    "keys_pressed base_state = \<lparr>key_left = False, key_right = False\<rparr>"
    by (simp_all add: base_state_def game_consts)
  have b: "(0::int) \<le> 935 \<and> (935::int) \<le> WORLD_W - PLAYER_WIDTH"
    by (simp add: game_consts)
  from C5_player_stays_in_world [where s = base_state and d = "CHR ''E''"
      and inputs = "[(\<lparr>key_left = True, key_right = False\<rparr>, sample_rnd)]"
      and r = sample_rnd and px = 935 and px' = 935 and raw = 0 and c = zero_draws
      and k = "\<lparr>key_left = False, key_right = True\<rparr>"] a b
  show ?thesis by (simp add: game_consts move_player_def)
qed


section \<open>Projectile advance\<close>

lemma advance_bullets_eq:
  "advance_bullets bs = map (\<lambda>b. (fst b, snd b - 20)) (filter (\<lambda>b. snd b > 0) bs)"
  by (induction bs) (auto simp: advance_bullets_def)

lemma advance_alien_bullets_eq:
  "advance_alien_bullets bs = map (\<lambda>b. (fst b, snd b + 15)) (filter (\<lambda>b. snd b < WORLD_H) bs)"
  by (induction bs) (auto simp: advance_alien_bullets_def)

text \<open>
  C6, as stated, fails: the drop test reads a bullet's position before the move, so a
  bullet that crosses the boundary in this phase is kept. A player bullet at y = 5
  ends the phase, and the tick, at y = -15, above the top of the world; an alien bullet
  at y = 799 ends them at y = 814, below its bottom.
\<close>

theorem C6_crossing_bullet_survives:
  "advance_bullets [(3, 5)] = [(3, - 15)]
   \<and> advance_alien_bullets [(1, 799)] = [(1, 814)]
   \<and> \<not> game_over crossing_state
   \<and> bullets crossing_state = [(3, 5)]
   \<and> alien_bullets crossing_state = [(1, 799)]
   \<and> bullets (fst (update_logic (CHR ''E'') sample_rnd crossing_state)) = [(3, - 15)]
   \<and> alien_bullets (fst (update_logic (CHR ''E'') sample_rnd crossing_state)) = [(1, 814)]
   \<and> WORLD_H < 814"
  by (simp add: phase_defs sample_defs rect_defs game_consts)

text \<open>
  C6, amended. The projectile advance keeps exactly the player bullets whose y is \<open>> 0\<close>
  and the alien bullets whose y is \<open>< WORLD_H\<close> when the phase starts, in their original
  order, and moves each kept player bullet up by exactly 20 and each kept alien bullet
  down by exactly 15, x unchanged. A bullet at or beyond the top or bottom boundary when
  the phase starts is dropped; a bullet that the move itself carries across the boundary
  is kept and dropped by the next advance, so no kept player bullet is above \<open>-20\<close> and
  no kept alien bullet is at or below \<open>WORLD_H + 15\<close>.
\<close>

theorem C6_projectile_advance:
  "advance_bullets bs = map (\<lambda>b. (fst b, snd b - 20)) (filter (\<lambda>b. snd b > 0) bs)
   \<and> advance_alien_bullets cs
       = map (\<lambda>b. (fst b, snd b + 15)) (filter (\<lambda>b. snd b < WORLD_H) cs)
   \<and> subseq (map (\<lambda>b. (fst b, snd b + 20)) (advance_bullets bs)) bs
   \<and> subseq (map (\<lambda>b. (fst b, snd b - 15)) (advance_alien_bullets cs)) cs
   \<and> length (advance_bullets bs) = length (filter (\<lambda>b. snd b > 0) bs)
   \<and> length (advance_alien_bullets cs) = length (filter (\<lambda>b. snd b < WORLD_H) cs)
   \<and> (\<forall>b \<in> set (advance_bullets bs). - 20 < snd b)
   \<and> (\<forall>b \<in> set (advance_alien_bullets cs). snd b < WORLD_H + 15)
   \<and> (\<forall>b \<in> set (advance_bullets (advance_bullets bs)). 0 \<le> snd b + 20)
   \<and> (\<forall>b \<in> set (advance_alien_bullets (advance_alien_bullets cs)). snd b - 15 \<le> WORLD_H)
   \<and> bullets (move_bullets s) = advance_bullets (bullets s)
   \<and> alien_bullets (move_bullets s) = advance_alien_bullets (alien_bullets s)"
proof -
  have up: "map (\<lambda>b. (fst b, snd b + 20)) (advance_bullets bs) = filter (\<lambda>b. snd b > 0) bs"
    by (simp add: advance_bullets_eq comp_def)
  have down: "map (\<lambda>b. (fst b, snd b - 15)) (advance_alien_bullets cs)
      = filter (\<lambda>b. snd b < WORLD_H) cs"
    by (simp add: advance_alien_bullets_eq comp_def)
  have s1: "subseq (map (\<lambda>b. (fst b, snd b + 20)) (advance_bullets bs)) bs"
    unfolding up by simp
  have s2: "subseq (map (\<lambda>b. (fst b, snd b - 15)) (advance_alien_bullets cs)) cs"
    unfolding down by simp
  have l1: "length (advance_bullets bs) = length (filter (\<lambda>b. snd b > 0) bs)"
    by (simp add: advance_bullets_eq)
  have l2: "length (advance_alien_bullets cs) = length (filter (\<lambda>b. snd b < WORLD_H) cs)"
    by (simp add: advance_alien_bullets_eq)
  have b1: "\<forall>b \<in> set (advance_bullets bs). - 20 < snd b"
    by (auto simp: advance_bullets_eq)
  have b2: "\<forall>b \<in> set (advance_alien_bullets cs). snd b < WORLD_H + 15"
    by (auto simp: advance_alien_bullets_eq)
  have c1: "\<forall>b \<in> set (advance_bullets (advance_bullets bs)). 0 \<le> snd b + 20"
    by (auto simp: advance_bullets_eq)
  have c2: "\<forall>b \<in> set (advance_alien_bullets (advance_alien_bullets cs)). snd b - 15 \<le> WORLD_H"
    by (auto simp: advance_alien_bullets_eq)
  have m: "bullets (move_bullets s) = advance_bullets (bullets s)"
    "alien_bullets (move_bullets s) = advance_alien_bullets (alien_bullets s)"
    by (simp_all add: move_bullets_def)
  from advance_bullets_eq [of bs] advance_alien_bullets_eq [of cs] s1 s2 l1 l2 b1 b2 c1 c2 m
  show ?thesis by blast
qed

theorem C6_projectile_advance_witness:
  "advance_bullets [(1, 40), (2, 0), (3, 5), (4, 700)] = [(1, 20), (3, - 15), (4, 680)]
   \<and> advance_alien_bullets [(1, 799), (2, 800), (3, 100)] = [(1, 814), (3, 115)]
   \<and> advance_bullets (advance_bullets [(1, 40), (2, 0), (3, 5), (4, 700)]) = [(1, 0), (4, 660)]"
proof -
  have a: "filter (\<lambda>b. snd b > 0) [(1, 40), (2, 0), (3, 5), (4, 700::int)]
      = [(1::int, 40), (3, 5), (4, 700)]"
    by simp
  have b: "filter (\<lambda>b. snd b < WORLD_H) [(1, 799), (2, 800), (3, 100)]
      = [(1::int, 799), (3, 100)]"
    by (simp add: WORLD_H_def)
  have c: "filter (\<lambda>b. snd b > 0) [(1, 20), (3, - 15), (4, 680::int)] = [(1::int, 20), (4, 680)]"
    by simp
  have d: "advance_bullets [(1, 20), (3, - 15), (4, 680)] = [(1, 0), (4, 660)]"
    by (simp add: advance_bullets_def)
  from C6_projectile_advance [of "[(1, 40), (2, 0), (3, 5), (4, 700)]" "[(1, 799), (2, 800), (3, 100)]"]
    a b c d show ?thesis by simp
qed


section \<open>The shots_fired counter\<close>

lemma run_step_shots:
  "shots_fired (fst (run_step d r s))
   = shots_fired s
     + (if \<not> paused s \<and> \<not> game_over s \<and> ship_destroyed r (fst (advance_entities d r s))
        then 1 else 0)"
  by (cases "game_over s") (simp_all add: run_step_def update_logic_fields update_logic_game_over)

lemma receive_state_worker: "worker_state (receive_state g e) = worker_state g"
  by (simp add: receive_state_def split: event.split)

lemma foldl_receive_state_worker: "worker_state (foldl receive_state g evs) = worker_state g"
  by (induction evs arbitrary: g) (simp_all add: receive_state_worker)

lemma tick_shots:
  "shots_fired (worker_state (step g (Tick r)))
   = shots_fired (worker_state g)
     + (if worker_running g \<and> \<not> paused (worker_state g) \<and> \<not> game_over (worker_state g)
          \<and> ship_destroyed r (fst (advance_entities (worker_difficulty g) r (worker_state g)))
        then 1 else 0)"
proof (cases "worker_running g")
  case False
  then show ?thesis by simp
next
  case True
  obtain s evs where run: "run_step (worker_difficulty g) r (worker_state g) = (s, evs)"
    by (cases "run_step (worker_difficulty g) r (worker_state g)")
  have "shots_fired (worker_state (step g (Tick r))) = shots_fired s"
    using True run by (simp add: foldl_receive_state_worker)
  moreover have "s = fst (run_step (worker_difficulty g) r (worker_state g))"
    using run by simp
  ultimately show ?thesis
    using True by (simp add: run_step_shots)
qed

lemma fire_bullet_shots: "shots_fired (worker_state (fire_bullet g)) = shots_fired (worker_state g)"
  by (simp add: fire_bullet_def split: option.split)

lemma press_shots:
  "\<not> resets g (Press k side raw c) \<Longrightarrow>
   shots_fired (worker_state (keyPressEvent k side raw c g)) = shots_fired (worker_state g)"
  by (cases k)
    (simp_all add: keyPressEvent_def Let_def fire_bullet_shots update_key_state_def
      spawn_mystery_ship_def)

lemma release_shots:
  "shots_fired (worker_state (keyReleaseEvent k g)) = shots_fired (worker_state g)"
  by (simp add: keyReleaseEvent_def Let_def update_key_state_def)

lemma step_shots_mono:
  "\<not> resets g a \<Longrightarrow> shots_fired (worker_state g) \<le> shots_fired (worker_state (step g a))"
proof (cases a)
  case (Tick r)
  then show ?thesis using tick_shots [of g r] by simp
next
  case (Press k side raw c)
  assume "\<not> resets g a"
  with Press show ?thesis using press_shots [of g k side raw c] by simp
next
  case (Release k)
  then show ?thesis by (simp add: release_shots)
qed

lemma run_shots_mono:
  "no_reset g as \<Longrightarrow> shots_fired (worker_state g) \<le> shots_fired (worker_state (foldl step g as))"
proof (induction as arbitrary: g)
  case Nil
  then show ?case by simp
next
  case (Cons a as)
  from Cons.prems have "\<not> resets g a" and "no_reset (step g a) as" by simp_all
  with Cons.IH [of "step g a"] step_shots_mono [of g a] show ?case by simp
qed

text \<open>
  C10. Firing a bullet (Space) leaves \<open>shots_fired\<close> unchanged, and so does every key press
  that does not call \<^verbatim>\<open>reset_state\<close> and every key release; a reset sets it to 0. The
  scoring call increments it by exactly 1, and a tick changes it only through that call,
  once when the mystery ship is destroyed. Hence over every run of ticks and key
  events without a reset the counter never decreases.
\<close>

theorem C10_shots_fired_only_by_scoring:
  "shots_fired (worker_state (keyPressEvent Key_Space side raw c g)) = shots_fired (worker_state g)
   \<and> (\<not> resets g (Press k side raw c) \<longrightarrow>
        shots_fired (worker_state (keyPressEvent k side raw c g)) = shots_fired (worker_state g))
   \<and> shots_fired (worker_state (keyReleaseEvent k g)) = shots_fired (worker_state g)
   \<and> shots_fired (reset_state raw c) = 0
   \<and> (resets g (Press k side raw c) \<longrightarrow>
        shots_fired (worker_state (keyPressEvent k side raw c g)) = 0)
   \<and> shots_fired (snd (calculate_mystery_ship_score s)) = shots_fired s + 1
   \<and> shots_fired (mystery_ship_collisions r s)
       = shots_fired s + (if ship_destroyed r s then 1 else 0)
   \<and> shots_fired (worker_state (step g (Tick r)))
       = shots_fired (worker_state g)
         + (if worker_running g \<and> \<not> paused (worker_state g) \<and> \<not> game_over (worker_state g)
              \<and> ship_destroyed r (fst (advance_entities (worker_difficulty g) r (worker_state g)))
            then 1 else 0)
   \<and> (no_reset g as \<longrightarrow>
        shots_fired (worker_state g) \<le> shots_fired (worker_state (foldl step g as)))"
proof -
  have space: "shots_fired (worker_state (keyPressEvent Key_Space side raw c g))
      = shots_fired (worker_state g)"
    by (rule press_shots) simp
  have press: "\<not> resets g (Press k side raw c) \<longrightarrow>
      shots_fired (worker_state (keyPressEvent k side raw c g)) = shots_fired (worker_state g)"
    using press_shots by blast
  have reset: "shots_fired (reset_state raw c) = 0"
    by (simp add: reset_state_def)
  have resetting: "resets g (Press k side raw c) \<longrightarrow>
      shots_fired (worker_state (keyPressEvent k side raw c g)) = 0"
    by (cases k)
      (auto simp: keyPressEvent_def Let_def start_game_def update_key_state_def reset_state_def)
  have calc: "shots_fired (snd (calculate_mystery_ship_score s)) = shots_fired s + 1"
    by (simp add: calculate_mystery_ship_score_def Let_def)
  have run: "no_reset g as \<longrightarrow>
      shots_fired (worker_state g) \<le> shots_fired (worker_state (foldl step g as))"
    using run_shots_mono by blast
  from space press release_shots [of k g] reset resetting calc
    mystery_ship_collisions_shots [of r s] tick_shots [of g r] run
  show ?thesis by blast
qed


lemma ship_state_tick:
  "ship_destroyed sample_rnd (fst (advance_entities (CHR ''H'') sample_rnd ship_state))"
  by (simp add: ship_destroyed_def phase_defs sample_defs rect_defs game_consts)

theorem C10_shots_fired_only_by_scoring_witness:
  "\<not> resets sample_gui (Press Key_Space False 0 zero_draws)
   \<and> resets sample_gui (Press Key_R False 0 zero_draws)
   \<and> no_reset sample_gui [Press Key_Space False 0 zero_draws, Tick sample_rnd]
   \<and> shots_fired (worker_state sample_gui) = 2
   \<and> shots_fired (worker_state (keyPressEvent Key_Space False 0 zero_draws sample_gui)) = 2
   \<and> shots_fired (worker_state (keyPressEvent Key_R False 0 zero_draws sample_gui)) = 0
   \<and> shots_fired (worker_state (step sample_gui (Tick sample_rnd))) = 3
   \<and> 2 \<le> shots_fired (worker_state
            (foldl step sample_gui [Press Key_Space False 0 zero_draws, Tick sample_rnd]))"
proof -
  have a: "\<not> resets sample_gui (Press Key_Space False 0 zero_draws)"
    "resets sample_gui (Press Key_R False 0 zero_draws)"
    "no_reset sample_gui [Press Key_Space False 0 zero_draws, Tick sample_rnd]"
    by simp_all
  have b: "shots_fired (worker_state sample_gui) = 2"
    "worker_running sample_gui" "\<not> paused (worker_state sample_gui)"
    "\<not> game_over (worker_state sample_gui)"
    "worker_difficulty sample_gui = CHR ''H''" "worker_state sample_gui = ship_state"
    by (simp_all add: sample_gui_def ship_state_def base_state_def)
  from C10_shots_fired_only_by_scoring [where g = sample_gui and k = Key_R and side = False
      and raw = 0 and c = zero_draws and r = sample_rnd
      and as = "[Press Key_Space False 0 zero_draws, Tick sample_rnd]"]
    a b ship_state_tick
  show ?thesis by simp
qed


section \<open>Level completion\<close>

lemma enumerate_alien_rows:
  "enumerate 0 alien_rows
   = [(0, ''squid''), (1, ''crab''), (2, ''crab''), (3, ''octopus''), (4, ''octopus'')]"
  by (simp add: alien_rows_def eval_nat_numeral)

lemma create_aliens_rows:
  "create_aliens c =
      map (new_alien c 0 ''squid'') [0..<11] @ map (new_alien c 1 ''crab'') [0..<11]
      @ map (new_alien c 2 ''crab'') [0..<11] @ map (new_alien c 3 ''octopus'') [0..<11]
      @ map (new_alien c 4 ''octopus'') [0..<11]"
  unfolding create_aliens_def enumerate_alien_rows by simp

lemma length_create_aliens: "length (create_aliens c) = 55"
  unfolding create_aliens_rows by simp

lemma create_aliens_nth:
  assumes "row < 5" and "col < 11"
  shows "create_aliens c ! (row * 11 + col) = new_alien c row (alien_rows ! row) col"
proof -
  from assms(1) consider "row = 0" | "row = 1" | "row = 2" | "row = 3" | "row = 4"
    by linarith
  then show ?thesis
    using assms(2) unfolding create_aliens_rows
    by cases (simp_all add: nth_append alien_rows_def del: upt_Suc)
qed


text \<open>
  C2, as stated, fails: level completion does not reset the formation direction or the
  shared animation counter. Here the last alien is shot while the formation moves left
  with the counter at 3; after the tick the level is 2, the grid is fresh, and the
  direction is still \<open>-1\<close> and the counter 4.
\<close>

theorem C2_direction_not_reset:
  "\<not> game_over last_alien_state
   \<and> alien_direction last_alien_state = - 1
   \<and> alien_anim_counter last_alien_state = 3
   \<and> aliens (fst (resolve_collisions (CHR ''E'') sample_rnd last_alien_state)) = []
   \<and> level (fst (update_logic (CHR ''E'') sample_rnd last_alien_state)) = 2
   \<and> length (aliens (fst (update_logic (CHR ''E'') sample_rnd last_alien_state))) = 55
   \<and> alien_direction (fst (update_logic (CHR ''E'') sample_rnd last_alien_state)) = - 1
   \<and> alien_direction (fst (update_logic (CHR ''E'') sample_rnd last_alien_state)) \<noteq> 1
   \<and> alien_anim_counter (fst (update_logic (CHR ''E'') sample_rnd last_alien_state)) = 4"
proof -
  have a: "\<not> game_over last_alien_state" "alien_direction last_alien_state = - 1"
    "alien_anim_counter last_alien_state = 3" "level last_alien_state = 1"
    by (simp_all add: sample_defs)
  have b: "aliens (fst (resolve_collisions (CHR ''E'') sample_rnd last_alien_state)) = []"
    by (simp add: phase_defs sample_defs rect_defs game_consts)
  have c: "alien_direction (move_aliens last_alien_state) = - 1"
    "alien_anim_counter (move_aliens last_alien_state) = 4"
    by (simp_all add: phase_defs sample_defs game_consts)
  from a b c show ?thesis
    by (simp add: update_logic_level update_logic_fields length_create_aliens)
qed

text \<open>
  C2, amended. In a tick whose alien collection is empty after collision resolution the
  level grows by 1, the formation speed by exactly 2, and the aliens become a fresh grid
  of 55: row \<open>row\<close>, column \<open>col\<close> at \<open>(50 + 50 * col, 50 + 40 * row)\<close>, of the row's type,
  with a newly drawn colour index in 0..5 and frame 0. The formation direction and the
  shared animation counter keep the values the formation advance gave them. When the
  collection is not empty the level, the speed and the aliens stay, so the level-up
  happens once, in exactly those ticks.
\<close>

theorem C2_level_completion:
  "(\<not> game_over s \<and> aliens (fst (resolve_collisions d r s)) = [] \<longrightarrow>
      level (fst (update_logic d r s)) = level s + 1
      \<and> alien_speed (fst (update_logic d r s)) = alien_speed s + 2
      \<and> aliens (fst (update_logic d r s)) = create_aliens (r_colors r)
      \<and> alien_direction (fst (update_logic d r s)) = alien_direction (move_aliens s)
      \<and> alien_anim_counter (fst (update_logic d r s)) = alien_anim_counter (move_aliens s))
   \<and> (\<not> game_over s \<and> aliens (fst (resolve_collisions d r s)) \<noteq> [] \<longrightarrow>
      level (fst (update_logic d r s)) = level s
      \<and> alien_speed (fst (update_logic d r s)) = alien_speed s
      \<and> aliens (fst (update_logic d r s)) = aliens (fst (resolve_collisions d r s)))
   \<and> length (create_aliens c) = 55
   \<and> (\<forall>row < 5. \<forall>col < 11.
        create_aliens c ! (row * 11 + col)
        = \<lparr>alien_x = 50 + int col * 50, alien_y = 50 + int row * 40,
           alien_type = alien_rows ! row,
           color_index = randint 0 5 (c (row * 11 + col)), frame = 0\<rparr>
        \<and> 0 \<le> randint 0 5 (c (row * 11 + col)) \<and> randint 0 5 (c (row * 11 + col)) \<le> 5)"
proof -
  have up: "\<not> game_over s \<and> aliens (fst (resolve_collisions d r s)) = [] \<longrightarrow>
      level (fst (update_logic d r s)) = level s + 1
      \<and> alien_speed (fst (update_logic d r s)) = alien_speed s + 2
      \<and> aliens (fst (update_logic d r s)) = create_aliens (r_colors r)
      \<and> alien_direction (fst (update_logic d r s)) = alien_direction (move_aliens s)
      \<and> alien_anim_counter (fst (update_logic d r s)) = alien_anim_counter (move_aliens s)"
    by (simp add: update_logic_level update_logic_fields)
  have stay: "\<not> game_over s \<and> aliens (fst (resolve_collisions d r s)) \<noteq> [] \<longrightarrow>
      level (fst (update_logic d r s)) = level s
      \<and> alien_speed (fst (update_logic d r s)) = alien_speed s
      \<and> aliens (fst (update_logic d r s)) = aliens (fst (resolve_collisions d r s))"
    by (simp add: update_logic_level)
  have grid: "\<forall>row < 5. \<forall>col < 11.
        create_aliens c ! (row * 11 + col)
        = \<lparr>alien_x = 50 + int col * 50, alien_y = 50 + int row * 40,
           alien_type = alien_rows ! row,
           color_index = randint 0 5 (c (row * 11 + col)), frame = 0\<rparr>
        \<and> 0 \<le> randint 0 5 (c (row * 11 + col)) \<and> randint 0 5 (c (row * 11 + col)) \<le> 5"
    using randint_range [of 0 5] by (simp add: create_aliens_nth new_alien_def)
  from up stay length_create_aliens [of c] grid show ?thesis by blast
qed

theorem C2_level_completion_witness:
  "\<not> game_over last_alien_state
   \<and> aliens (fst (resolve_collisions (CHR ''E'') sample_rnd last_alien_state)) = []
   \<and> level (fst (update_logic (CHR ''E'') sample_rnd last_alien_state)) = 2
   \<and> alien_speed (fst (update_logic (CHR ''E'') sample_rnd last_alien_state)) = 12
   \<and> aliens (fst (update_logic (CHR ''E'') sample_rnd last_alien_state)) = create_aliens zero_draws
   \<and> \<not> game_over base_state
   \<and> aliens (fst (resolve_collisions (CHR ''E'') sample_rnd base_state)) \<noteq> []
   \<and> level (fst (update_logic (CHR ''E'') sample_rnd base_state)) = 1
   \<and> (1::nat) < 5 \<and> (2::nat) < 11
   \<and> create_aliens zero_draws ! 13
      = \<lparr>alien_x = 150, alien_y = 90, alien_type = ''crab'', color_index = 0, frame = 0\<rparr>"
proof -
  have a: "\<not> game_over last_alien_state" "level last_alien_state = 1"
    "alien_speed last_alien_state = 10" "\<not> game_over base_state" "level base_state = 1"
    "r_colors sample_rnd = zero_draws"
    by (simp_all add: sample_defs)
  have b: "aliens (fst (resolve_collisions (CHR ''E'') sample_rnd last_alien_state)) = []"
    by (simp add: phase_defs sample_defs rect_defs game_consts)
  have c: "aliens (fst (resolve_collisions (CHR ''E'') sample_rnd base_state)) \<noteq> []"
    by (simp add: phase_defs sample_defs rect_defs game_consts)
  have d: "randint 0 5 (zero_draws 13) = 0" "alien_rows ! 1 = ''crab''"
    by (simp_all add: randint_def zero_draws_def alien_rows_def)
  note up = C2_level_completion [where s = last_alien_state and d = "CHR ''E''"
      and r = sample_rnd and c = zero_draws]
  note stay = C2_level_completion [where s = base_state and d = "CHR ''E''"
      and r = sample_rnd and c = zero_draws]
  from up have grid: "\<forall>row < 5. \<forall>col < 11.
        create_aliens zero_draws ! (row * 11 + col)
        = \<lparr>alien_x = 50 + int col * 50, alien_y = 50 + int row * 40,
           alien_type = alien_rows ! row,
           color_index = randint 0 5 (zero_draws (row * 11 + col)), frame = 0\<rparr>
        \<and> 0 \<le> randint 0 5 (zero_draws (row * 11 + col))
        \<and> randint 0 5 (zero_draws (row * 11 + col)) \<le> 5"
    by blast
  have e: "create_aliens zero_draws ! 13
      = \<lparr>alien_x = 150, alien_y = 90, alien_type = ''crab'', color_index = 0, frame = 0\<rparr>"
    using grid [rule_format, of 1 2] d by simp
  from up stay a b c e show ?thesis by simp
qed

section \<open>The game-over signal\<close>

text \<open>
  C3. With one life left and one alien bullet overlapping the player, one tick leaves
  \<open>lives = 0\<close>, sets \<open>game_over\<close> and emits \<^verbatim>\<open>request_initials\<close> once. With two
  overlapping bullets the loop runs on after the lethal hit: \<open>lives\<close> ends at \<open>-1\<close> and
  \<^verbatim>\<open>request_initials\<close> is emitted twice in the same tick.
\<close>

theorem C3_game_over_emitted_twice:
  "\<not> game_over one_lethal_bullet \<and> lives one_lethal_bullet = 1
   \<and> lives (fst (update_logic (CHR ''H'') sample_rnd one_lethal_bullet)) = 0
   \<and> game_over (fst (update_logic (CHR ''H'') sample_rnd one_lethal_bullet))
   \<and> request_count (snd (update_logic (CHR ''H'') sample_rnd one_lethal_bullet)) = 1
   \<and> \<not> game_over two_lethal_bullets \<and> lives two_lethal_bullets = 1
   \<and> lives (fst (update_logic (CHR ''H'') sample_rnd two_lethal_bullets)) = - 1
   \<and> game_over (fst (update_logic (CHR ''H'') sample_rnd two_lethal_bullets))
   \<and> request_count (snd (update_logic (CHR ''H'') sample_rnd two_lethal_bullets)) = 2"
  by (simp add: phase_defs sample_defs rect_defs game_consts request_count_def is_request_def)


section \<open>The score table\<close>

text \<open>
  C8. A missing file and a file that is not JSON both load as the empty table. Other
  malformed files do not: bytes that are not text raise \<^verbatim>\<open>UnicodeDecodeError\<close>, an
  unreadable file raises \<^verbatim>\<open>OSError\<close>, and JSON that is not a list of entries is returned
  as it is. Only \<^verbatim>\<open>json.JSONDecodeError\<close> is caught.
\<close>

theorem C8_load_lets_malformed_data_through:
  "load_scores Missing = Inr (JList [])
   \<and> load_scores NotJson = Inr (JList [])
   \<and> load_scores Undecodable = Inl UnicodeDecodeError
   \<and> load_scores Unreadable = Inl OSError
   \<and> load_scores (Json bad_shape) = Inr bad_shape
   \<and> bad_shape \<noteq> JList []"
  by (simp add: load_scores_def file_exists_def json_load_def bad_shape_def)

lemma ascii_vals: "ascii ''AAA'' = [65, 65, 65]" "ascii ''BBB'' = [66, 66, 66]"
  by (simp_all add: ascii_def)

lemma sort_desc_sorted: "sorted_wrt (\<lambda>a b. entry_score b \<le> entry_score a) (sort_desc es)"
proof -
  have "sorted (map (\<lambda>e. - entry_score e) (sort_key (\<lambda>e. - entry_score e) es))"
    by (rule sorted_sort_key)
  then show ?thesis
    by (simp add: sort_desc_def sorted_map)
qed

lemma sort_desc_stable:
  "filter (\<lambda>e. entry_score e = v) (sort_desc es) = filter (\<lambda>e. entry_score e = v) es"
  using sort_key_stable [of "\<lambda>e. - entry_score e" "- v" es]
  by (simp add: sort_desc_def)

lemma entry_json_inj: "entry_json a = entry_json b \<Longrightarrow> a = b"
  by (cases a, cases b) (simp add: entry_json_def)

lemma table_json_inj: "table_json a = table_json b \<Longrightarrow> a = b"
proof -
  assume "table_json a = table_json b"
  then have "map entry_json a = map entry_json b" by (simp add: table_json_def)
  moreover have "inj entry_json" by (rule injI) (rule entry_json_inj)
  ultimately show "a = b" by (simp add: inj_map_eq_map)
qed

lemma py_upper_length:
  "\<forall>c \<in> set s. length (up c) \<le> 1 \<Longrightarrow> length (py_upper up s) \<le> length s"
  by (induction s) (auto simp: py_upper_def)


lemma join_surrogates_id:
  "\<forall>c \<in> set s. \<not> is_high_surrogate c \<Longrightarrow> join_surrogates s = s"
  by (induction s rule: join_surrogates.induct) simp_all

lemma int_str_ok_small: "\<bar>n\<bar> < 1000 \<Longrightarrow> int_str_ok n"
proof -
  assume small: "\<bar>n\<bar> < 1000"
  have "(10::int) ^ 3 \<le> 10 ^ int_max_str_digits"
    by (rule power_increasing) (simp_all add: int_max_str_digits_def)
  then have "(1000::int) \<le> 10 ^ int_max_str_digits" by simp
  with small show ?thesis by (simp add: int_str_ok_def)
qed

lemma reread_table_id:
  "\<forall>e \<in> set es. join_surrogates (entry_initials e) = entry_initials e \<Longrightarrow>
   map reread_entry es = es"
  by (induction es) (simp_all add: reread_entry_def)

text \<open>
  Two inputs on which \<^verbatim>\<open>add_score\<close> misses what it sets out to do: the initials are cut
  to three characters before they are upper-cased, and two sharp s become SSSS; a score
  too long to print makes \<^verbatim>\<open>json.dump\<close> raise a \<^verbatim>\<open>ValueError\<close> that \<^verbatim>\<open>save_scores\<close> does
  not catch.
\<close>

lemma add_score_sharp_s:
  "entry_initials (hd (fst (fst (add_score upper_excerpt IoOk ([], Missing) [223, 223] 100))))
     = [83, 83, 83, 83]"
  by (simp add: add_score_def normalise_initials_def py_strip_def py_isspace_def py_upper_def
      upper_excerpt_def sort_desc_def Let_def split_beta)

lemma add_score_huge_score:
  "snd (add_score upper_excerpt IoOk ([], Missing) [65] (10 ^ int_max_str_digits))
     = Raised ValueError"
  by (simp add: add_score_def sort_desc_def save_scores_def int_str_ok_def Let_def split_beta)

text \<open>
  C7, as stated, fails. The table is only persisted when the write succeeds: when
  \<^verbatim>\<open>open\<close> fails the file stays as it was and a later load does not return the new table.
  And a successful write is not always read back as it was: initials that hold a high
  surrogate directly followed by a low one are written as two escapes, which
  \<^verbatim>\<open>json.load\<close> joins into one code point.
\<close>

theorem C7_round_trip_not_identical:
  "snd (fst (add_score upper_excerpt IoOpenFails (sample_table, Missing) (ascii ''CCC'') 400))
     = Missing
   \<and> snd (add_score upper_excerpt IoOpenFails (sample_table, Missing) (ascii ''CCC'') 400)
     = Warned
   \<and> load_scores
        (snd (fst (add_score upper_excerpt IoOpenFails (sample_table, Missing) (ascii ''CCC'') 400)))
     \<noteq> Inr (table_json
          (fst (fst (add_score upper_excerpt IoOpenFails (sample_table, Missing) (ascii ''CCC'') 400))))
   \<and> fst (fst (add_score upper_excerpt IoOk ([], Missing) [55357, 56832] 100))
     = [\<lparr>entry_initials = [55357, 56832], entry_score = 100\<rparr>]
   \<and> snd (add_score upper_excerpt IoOk ([], Missing) [55357, 56832] 100) = Saved
   \<and> load_scores (snd (fst (add_score upper_excerpt IoOk ([], Missing) [55357, 56832] 100)))
     = Inr (table_json [\<lparr>entry_initials = [128512], entry_score = 100\<rparr>])
   \<and> load_scores (snd (fst (add_score upper_excerpt IoOk ([], Missing) [55357, 56832] 100)))
     \<noteq> Inr (table_json (fst (fst (add_score upper_excerpt IoOk ([], Missing) [55357, 56832] 100))))"
proof -
  have ok: "int_str_ok 100"
    by (rule int_str_ok_small) simp
  have a: "add_score upper_excerpt IoOpenFails (sample_table, Missing) (ascii ''CCC'') 400
      = ((fst (fst (add_score upper_excerpt IoOpenFails (sample_table, Missing) (ascii ''CCC'') 400)),
          Missing), Warned)"
    by (simp add: add_score_def save_scores_def Let_def split_beta)
  have b: "fst (fst (add_score upper_excerpt IoOpenFails (sample_table, Missing) (ascii ''CCC'') 400))
      \<noteq> []"
    by (simp add: add_score_def sort_desc_def sample_table_def Let_def split_beta)
  have c: "add_score upper_excerpt IoOk ([], Missing) [55357, 56832] 100
      = (([\<lparr>entry_initials = [55357, 56832], entry_score = 100\<rparr>],
          Json (table_json [\<lparr>entry_initials = [128512], entry_score = 100\<rparr>])), Saved)"
    using ok
    by (simp add: add_score_def normalise_initials_def py_strip_def py_isspace_def py_upper_def
        upper_excerpt_def sort_desc_def save_scores_def Let_def reread_entry_def
        is_high_surrogate_def is_low_surrogate_def)
  have d: "load_scores Missing = Inr (JList [])"
    "\<And>v. load_scores (Json v) = Inr v"
    by (simp_all add: load_scores_def file_exists_def json_load_def)
  from a have a1: "snd (fst (add_score upper_excerpt IoOpenFails (sample_table, Missing)
        (ascii ''CCC'') 400)) = Missing"
    and a2: "snd (add_score upper_excerpt IoOpenFails (sample_table, Missing) (ascii ''CCC'') 400)
        = Warned"
    by (metis fst_conv snd_conv)+
  have e: "Inr (JList []) \<noteq> (Inr (table_json
        (fst (fst (add_score upper_excerpt IoOpenFails (sample_table, Missing) (ascii ''CCC'') 400))))
        :: py_error + json)"
    using b by (simp add: table_json_def)
  show ?thesis
    unfolding a1 a2 c using e by (simp add: d table_json_def entry_json_def)
qed

text \<open>
  C7, amended. \<^verbatim>\<open>add_score\<close> appends one entry with the given score, sorts by descending
  score with ties in insertion order (a stable sort: a permutation, ordered, that keeps
  the order of the entries of each score) and keeps the first 10. When no kept character
  has an upper case longer than one character, the entry's initials are the stripped
  input cut to three characters and upper-cased, at most three characters. The table is
  then written: when \<^verbatim>\<open>open\<close> fails the file is unchanged and a warning is printed; when
  the write succeeds, every score can be printed and no initials change when read back
  (none hold a high surrogate), the file holds the new table and loading it returns
  exactly that table, in the same order.
\<close>

theorem C7_add_score:
  "(\<exists>ini. fst (fst (add_score up w (scores, f) initials sc))
            = take 10 (sort_desc (scores @ [\<lparr>entry_initials = ini, entry_score = sc\<rparr>]))
          \<and> ((\<forall>c \<in> set (take 3 (py_strip initials)). length (up c) \<le> 1) \<longrightarrow>
                ini = py_upper up (take 3 (py_strip initials)) \<and> length ini \<le> 3))
   \<and> mset (sort_desc es) = mset es
   \<and> sorted_wrt (\<lambda>a b. entry_score b \<le> entry_score a) (sort_desc es)
   \<and> filter (\<lambda>e. entry_score e = v) (sort_desc es) = filter (\<lambda>e. entry_score e = v) es
   \<and> sorted_wrt (\<lambda>a b. entry_score b \<le> entry_score a)
        (fst (fst (add_score up w (scores, f) initials sc)))
   \<and> length (fst (fst (add_score up w (scores, f) initials sc))) \<le> 10
   \<and> ((\<forall>c \<in> set s. \<not> is_high_surrogate c) \<longrightarrow> join_surrogates s = s)
   \<and> (w = IoOk
        \<and> (\<forall>e \<in> set (fst (fst (add_score up w (scores, f) initials sc))).
              int_str_ok (entry_score e)
              \<and> join_surrogates (entry_initials e) = entry_initials e) \<longrightarrow>
        snd (fst (add_score up w (scores, f) initials sc))
          = Json (table_json (fst (fst (add_score up w (scores, f) initials sc))))
        \<and> load_scores (snd (fst (add_score up w (scores, f) initials sc)))
          = Inr (table_json (fst (fst (add_score up w (scores, f) initials sc))))
        \<and> (\<forall>es'. load_scores (snd (fst (add_score up w (scores, f) initials sc)))
                    = Inr (table_json es')
                 \<longrightarrow> es' = fst (fst (add_score up w (scores, f) initials sc)))
        \<and> snd (add_score up w (scores, f) initials sc) = Saved)
   \<and> (w = IoOpenFails \<longrightarrow>
        snd (fst (add_score up w (scores, f) initials sc)) = f
        \<and> snd (add_score up w (scores, f) initials sc) = Warned)
   \<and> (w = IoWriteFails \<longrightarrow> snd (add_score up w (scores, f) initials sc) = Warned)"
proof -
  let ?ini = "py_upper up (take 3 (py_strip initials))"
  let ?res = "add_score up w (scores, f) initials sc"
  have tbl: "fst (fst ?res)
      = take 10 (sort_desc (scores @ [\<lparr>entry_initials = ?ini, entry_score = sc\<rparr>]))"
    by (simp add: add_score_def normalise_initials_def Let_def split_beta)
  have l3: "length (take 3 (py_strip initials)) \<le> 3"
    by simp
  have up3: "(\<forall>c \<in> set (take 3 (py_strip initials)). length (up c) \<le> 1) \<longrightarrow>
        ?ini = py_upper up (take 3 (py_strip initials)) \<and> length ?ini \<le> 3"
  proof (intro impI conjI)
    assume "\<forall>c \<in> set (take 3 (py_strip initials)). length (up c) \<le> 1"
    then have "length ?ini \<le> length (take 3 (py_strip initials))"
      by (rule py_upper_length)
    with l3 show "length ?ini \<le> 3"
      by linarith
  qed simp
  from tbl up3 have new: "\<exists>ini. fst (fst ?res)
            = take 10 (sort_desc (scores @ [\<lparr>entry_initials = ini, entry_score = sc\<rparr>]))
          \<and> ((\<forall>c \<in> set (take 3 (py_strip initials)). length (up c) \<le> 1) \<longrightarrow>
                ini = py_upper up (take 3 (py_strip initials)) \<and> length ini \<le> 3)"
    by blast
  have perm: "mset (sort_desc es) = mset es"
    by (simp add: sort_desc_def)
  have srt: "sorted_wrt (\<lambda>a b. entry_score b \<le> entry_score a) (fst (fst ?res))"
    unfolding tbl using sort_desc_sorted by (rule sorted_wrt_take)
  have len: "length (fst (fst ?res)) \<le> 10"
    unfolding tbl by simp
  have join: "(\<forall>c \<in> set s. \<not> is_high_surrogate c) \<longrightarrow> join_surrogates s = s"
    using join_surrogates_id by blast
  have written: "snd ?res = Saved
      \<and> snd (fst ?res) = Json (table_json (fst (fst ?res)))
      \<and> load_scores (snd (fst ?res)) = Inr (table_json (fst (fst ?res)))
      \<and> (\<forall>es'. load_scores (snd (fst ?res)) = Inr (table_json es') \<longrightarrow> es' = fst (fst ?res))"
    if w: "w = IoOk"
      and fine: "\<forall>e \<in> set (fst (fst ?res)).
          int_str_ok (entry_score e) \<and> join_surrogates (entry_initials e) = entry_initials e"
  proof -
    from fine have ints: "list_all (\<lambda>e. int_str_ok (entry_score e)) (fst (fst ?res))"
      by (simp add: list_all_iff)
    from fine have same: "map reread_entry (fst (fst ?res)) = fst (fst ?res)"
      by (intro reread_table_id) simp
    have saved: "save_scores w (fst (fst ?res)) f = (Json (table_json (fst (fst ?res))), Saved)"
      using w ints same by (simp add: save_scores_def)
    have parts: "snd (fst ?res) = fst (save_scores w (fst (fst ?res)) f)"
      "snd ?res = snd (save_scores w (fst (fst ?res)) f)"
      by (simp_all add: add_score_def Let_def split_beta)
    have loaded: "load_scores (snd (fst ?res)) = Inr (table_json (fst (fst ?res)))"
      by (simp add: parts saved load_scores_def file_exists_def json_load_def)
    from parts saved loaded table_json_inj show ?thesis by auto
  qed
  then have ok: "w = IoOk
        \<and> (\<forall>e \<in> set (fst (fst ?res)).
              int_str_ok (entry_score e)
              \<and> join_surrogates (entry_initials e) = entry_initials e) \<longrightarrow>
        snd (fst ?res) = Json (table_json (fst (fst ?res)))
        \<and> load_scores (snd (fst ?res)) = Inr (table_json (fst (fst ?res)))
        \<and> (\<forall>es'. load_scores (snd (fst ?res)) = Inr (table_json es') \<longrightarrow> es' = fst (fst ?res))
        \<and> snd ?res = Saved"
    by blast
  have fails: "w = IoOpenFails \<longrightarrow> snd (fst ?res) = f \<and> snd ?res = Warned"
    by (simp add: add_score_def Let_def split_beta save_scores_def)
  have partial: "w = IoWriteFails \<longrightarrow> snd ?res = Warned"
    by (simp add: add_score_def Let_def split_beta save_scores_def)
  from new perm sort_desc_sorted [of es] sort_desc_stable [of v es] srt len join ok fails partial
  show ?thesis by blast
qed

theorem C7_add_score_witness:
  "take 3 (py_strip [32, 97, 98, 99, 100, 32]) = [97, 98, 99]
   \<and> length (upper_excerpt 97) \<le> 1 \<and> length (upper_excerpt 98) \<le> 1
   \<and> length (upper_excerpt 99) \<le> 1
   \<and> IoOk = IoOk
   \<and> fst (fst (add_score upper_excerpt IoOk (sample_table, Missing) [32, 97, 98, 99, 100, 32] 300))
     = [\<lparr>entry_initials = [65, 65, 65], entry_score = 500\<rparr>,
        \<lparr>entry_initials = [66, 66, 66], entry_score = 300\<rparr>,
        \<lparr>entry_initials = [65, 66, 67], entry_score = 300\<rparr>]
   \<and> int_str_ok 500 \<and> int_str_ok 300
   \<and> join_surrogates [65, 65, 65] = [65, 65, 65]
   \<and> join_surrogates [66, 66, 66] = [66, 66, 66]
   \<and> join_surrogates [65, 66, 67] = [65, 66, 67]
   \<and> snd (add_score upper_excerpt IoOk (sample_table, Missing) [32, 97, 98, 99, 100, 32] 300)
     = Saved
   \<and> load_scores
        (snd (fst (add_score upper_excerpt IoOk (sample_table, Missing) [32, 97, 98, 99, 100, 32] 300)))
     = Inr (table_json
          (fst (fst (add_score upper_excerpt IoOk (sample_table, Missing)
             [32, 97, 98, 99, 100, 32] 300))))
   \<and> snd (fst (add_score upper_excerpt IoOpenFails (sample_table, Unreadable) [97] 1)) = Unreadable"
proof -
  let ?res = "add_score upper_excerpt IoOk (sample_table, Missing) [32, 97, 98, 99, 100, 32] 300"
  have strip: "take 3 (py_strip [32, 97, 98, 99, 100, 32]) = [97, 98, 99]"
    by (simp add: py_strip_def py_isspace_def)
  have u: "length (upper_excerpt 97) \<le> 1 \<and> length (upper_excerpt 98) \<le> 1
      \<and> length (upper_excerpt 99) \<le> 1"
    by (simp add: upper_excerpt_def)
  have tbl: "fst (fst ?res)
      = [\<lparr>entry_initials = [65, 65, 65], entry_score = 500\<rparr>,
         \<lparr>entry_initials = [66, 66, 66], entry_score = 300\<rparr>,
         \<lparr>entry_initials = [65, 66, 67], entry_score = 300\<rparr>]"
    by (simp add: add_score_def normalise_initials_def strip Let_def split_beta sort_desc_def
        sample_table_def ascii_vals py_upper_def upper_excerpt_def)
  have ints: "int_str_ok 500 \<and> int_str_ok 300"
    by (simp add: int_str_ok_small)
  have js: "join_surrogates [65, 65, 65] = [65, 65, 65]"
    "join_surrogates [66, 66, 66] = [66, 66, 66]"
    "join_surrogates [65, 66, 67] = [65, 66, 67]"
    by (simp_all add: is_high_surrogate_def)
  have fine: "\<forall>e \<in> set (fst (fst ?res)).
      int_str_ok (entry_score e) \<and> join_surrogates (entry_initials e) = entry_initials e"
    unfolding tbl using ints js by simp
  note inst = C7_add_score [where up = upper_excerpt and w = IoOk and scores = sample_table
      and f = Missing and initials = "[32, 97, 98, 99, 100, 32]" and sc = 300
      and es = sample_table and v = 300 and s = "[65, 66, 67]"]
  from inst fine
  have saved: "snd ?res = Saved"
    and loaded: "load_scores (snd (fst ?res)) = Inr (table_json (fst (fst ?res)))"
    by blast+
  from C7_add_score [where up = upper_excerpt and w = IoOpenFails and scores = sample_table
      and f = Unreadable and initials = "[97]" and sc = 1]
  have unchanged:
    "snd (fst (add_score upper_excerpt IoOpenFails (sample_table, Unreadable) [97] 1)) = Unreadable"
    by blast
  from strip u tbl ints js saved loaded unchanged show ?thesis by blast
qed

end
